theory Spec2Isabelle
  imports Main "HOL-Library.Word"
begin

section \<open>Errors, results of a call, standard output\<close>

text \<open>
  Go's \<open>error\<close> values that the program can produce or receive: \<open>io.EOF\<close> from the
  line reader, \<open>*strconv.NumError\<close> from \<open>strconv.Atoi\<close> (function, input, reason), and
  an error that carries only a message (\<open>errors.New\<close>, and every error handed back by the
  cluster client, the port forwarder or the HTTP client).
\<close>

datatype error = EOF | NumError string string string | ErrorString string

text \<open>\<open>err.Error()\<close>. \<open>strconv.Quote\<close> is rendered as plain double quotes.\<close>

fun Error :: "error \<Rightarrow> string" where
  "Error EOF = ''EOF''"
| "Error (NumError fn num msg) =
     ''strconv.'' @ fn @ '': parsing '' @ [CHR 0x22] @ num @ [CHR 0x22] @ '': '' @ msg"
| "Error (ErrorString s) = s"

text \<open>
  How a call ends: it returns (new store and result), it panics (the store at the panic and
  the panic value), it blocks for ever on a channel, or the model ran out of recursion depth.
\<close>

datatype ('s, 'a) exec = Returns 's 'a | Panics 's string | Blocks 's | OutOfFuel

definition andThen :: "('s, 'a) exec \<Rightarrow> ('a \<Rightarrow> 's \<Rightarrow> ('s, 'b) exec) \<Rightarrow> ('s, 'b) exec" where
  "andThen r k =
     (case r of
        Returns s a \<Rightarrow> k a s
      | Panics s msg \<Rightarrow> Panics s msg
      | Blocks s \<Rightarrow> Blocks s
      | OutOfFuel \<Rightarrow> OutOfFuel)"

text \<open>
  The store every callback works on: the machine's field \<open>State\<close> (the name of the active
  state, empty when none is) and what the process has written to standard output, one entry
  per write. The record is extended by the fields of the program that owns the machine.
\<close>

record store =
  State :: string
  stdout :: "string list"

definition Println :: "string \<Rightarrow> 'a store_scheme \<Rightarrow> 'a store_scheme" where
  "Println s f = f\<lparr>stdout := stdout f @ [s @ ''\<newline>'']\<rparr>"

definition Printf :: "string \<Rightarrow> 'a store_scheme \<Rightarrow> 'a store_scheme" where
  "Printf s f = f\<lparr>stdout := stdout f @ [s]\<rparr>"

section \<open>Package fsm\<close>

type_synonym 'a callback = "'a store_scheme \<Rightarrow> ('a store_scheme, error option) exec"

text \<open>\<open>type State struct\<close>: three optional callbacks (\<open>None\<close> is Go's \<open>nil\<close>).\<close>

record 'a State =
  Enter :: "'a callback option"
  Update :: "'a callback option"
  Exit :: "'a callback option"

text \<open>
  \<open>type FSM struct\<close>. Its field \<open>State\<close> lives in the store, where the callbacks and the
  error handler can read and write it; \<open>StateDirectory\<close> and \<open>ErrorHandler\<close> are set up
  before the machine is started and are not written afterwards.
\<close>

record 'a FSM =
  StateDirectory :: "string \<rightharpoonup> 'a State"
  ErrorHandler :: "'a store_scheme \<Rightarrow> error \<Rightarrow> ('a store_scheme, unit) exec"

definition NewFSM :: "'a FSM" where
  "NewFSM =
     \<lparr>StateDirectory = Map.empty,
      ErrorHandler = (\<lambda>f err. Returns (Println (''Error: '' @ Error err) f) ())\<rparr>"

definition Register :: "string \<Rightarrow> 'a State \<Rightarrow> 'a FSM \<Rightarrow> 'a FSM" where
  "Register name state m = m\<lparr>StateDirectory := (StateDirectory m)(name \<mapsto> state)\<rparr>"

definition Unregister :: "string \<Rightarrow> 'a FSM \<Rightarrow> 'a FSM" where
  "Unregister name m = m\<lparr>StateDirectory := (StateDirectory m)(name := None)\<rparr>"

definition HasState :: "'a FSM \<Rightarrow> string \<Rightarrow> bool" where
  "HasState m name = (case StateDirectory m name of None \<Rightarrow> False | Some _ \<Rightarrow> True)"

text \<open>\<open>f.StateDirectory[name]\<close>: reading a Go map at a missing key gives the zero value.\<close>

definition lookupState :: "'a FSM \<Rightarrow> string \<Rightarrow> 'a State" where
  "lookupState m name =
     (case StateDirectory m name of
        None \<Rightarrow> \<lparr>Enter = None, Update = None, Exit = None\<rparr>
      | Some st \<Rightarrow> st)"

text \<open>\<open>err := cb(); if err != nil { f.ErrorHandler(f, err) }\<close>\<close>

definition call :: "'a FSM \<Rightarrow> 'a callback \<Rightarrow> 'a store_scheme \<Rightarrow> ('a store_scheme, unit) exec" where
  "call m cb f =
     andThen (cb f)
       (\<lambda>err f'. case err of None \<Rightarrow> Returns f' () | Some e \<Rightarrow> ErrorHandler m f' e)"

definition FSM_Update :: "'a FSM \<Rightarrow> 'a store_scheme \<Rightarrow> ('a store_scheme, unit) exec" where
  "FSM_Update m f =
     (case (if State f \<noteq> '''' then State.Update (lookupState m (State f)) else None) of
        Some upd \<Rightarrow> call m upd f
      | None \<Rightarrow> Returns (Println ''Update() called on FSM without active state.'' f) ())"

text \<open>
  \<open>fmt.Println("FSM object", f, "has no state", stateName)\<close>. The \<open>%v\<close> form of the
  machine shows map contents and function addresses, which are not modelled: only the
  field \<open>State\<close> is rendered.
\<close>

definition noStateMessage :: "'a store_scheme \<Rightarrow> string \<Rightarrow> string" where
  "noStateMessage f stateName =
     ''FSM object &{'' @ State f @ '' map[...] 0x...} has no state '' @ stateName"

definition FSM_Change :: "'a FSM \<Rightarrow> string \<Rightarrow> 'a store_scheme \<Rightarrow> ('a store_scheme, unit) exec" where
  "FSM_Change m stateName f =
     andThen
       (case (if State f \<noteq> '''' then Exit (lookupState m (State f)) else None) of
          Some ex \<Rightarrow> call m ex f
        | None \<Rightarrow> Returns f ())
       (\<lambda>_ f1.
          case StateDirectory m stateName of
            None \<Rightarrow> Panics (Println (noStateMessage f1 stateName) f1) ''Error!''
          | Some _ \<Rightarrow>
              (let f2 = f1\<lparr>State := stateName\<rparr>
               in case (if State f2 \<noteq> '''' then Enter (lookupState m (State f2)) else None) of
                    Some en \<Rightarrow> call m en f2
                  | None \<Rightarrow> Returns f2 ()))"

section \<open>Library functions the program calls\<close>

text \<open>
  \<open>strings.TrimSpace\<close>, on the ASCII white space (tab, line feed, vertical tab, form feed,
  carriage return, space).
\<close>

definition isSpace :: "char \<Rightarrow> bool" where
  "isSpace c = (c \<in> set [CHR 0x09, CHR 0x0A, CHR 0x0B, CHR 0x0C, CHR 0x0D, CHR 0x20])"

definition TrimSpace :: "string \<Rightarrow> string" where
  "TrimSpace s = rev (dropWhile isSpace (rev (dropWhile isSpace s)))"

text \<open>\<open>strconv.Itoa\<close>, and \<open>%d\<close> of the \<open>fmt\<close> verbs.\<close>

definition digitChars :: string where
  "digitChars = ''0123456789''"

fun digits :: "nat \<Rightarrow> string" where
  "digits n =
     (if n < 10 then [digitChars ! n] else digits (n div 10) @ [digitChars ! (n mod 10)])"

declare digits.simps [simp del]

definition Itoa :: "int \<Rightarrow> string" where
  "Itoa i = (if i < 0 then ''-'' @ digits (nat (- i)) else digits (nat i))"

text \<open>
  \<open>strconv.Atoi\<close> on a 64-bit \<open>int\<close>: an optional sign, then one decimal digit or more;
  anything else is a syntax error, and a value outside the \<open>int\<close> range is a range error.
\<close>

definition isDigit :: "char \<Rightarrow> bool" where
  "isDigit c = (c \<in> set digitChars)"

definition digitValue :: "char \<Rightarrow> int" where
  "digitValue c = int (length (takeWhile (\<lambda>d. d \<noteq> c) digitChars))"

definition decimal :: "string \<Rightarrow> int" where
  "decimal ds = foldl (\<lambda>n c. n * 10 + digitValue c) 0 ds"

definition Atoi :: "string \<Rightarrow> error + int" where
  "Atoi s =
     (let neg = (case s of c # _ \<Rightarrow> c = CHR ''-'' | [] \<Rightarrow> False);
          ds = (case s of c # r \<Rightarrow> if c = CHR ''-'' \<or> c = CHR ''+'' then r else s | [] \<Rightarrow> [])
      in if ds = [] \<or> \<not> list_all isDigit ds then Inl (NumError ''Atoi'' s ''invalid syntax'')
         else (let n = (if neg then - decimal ds else decimal ds)
               in if n < - (2 ^ 63) \<or> 2 ^ 63 \<le> n
                  then Inl (NumError ''Atoi'' s ''value out of range'')
                  else Inr n))"

text \<open>The run-time panics of Go that the program can hit.\<close>

definition nilDereference :: string where
  "nilDereference = ''runtime error: invalid memory address or nil pointer dereference''"

definition indexOutOfRange :: "int \<Rightarrow> nat \<Rightarrow> string" where
  "indexOutOfRange i n =
     (if i < 0 then ''runtime error: index out of range ['' @ Itoa i @ '']''
      else ''runtime error: index out of range ['' @ Itoa i @ ''] with length '' @ Itoa (int n))"

text \<open>\<open>xs[i]\<close> on a slice, with an \<open>int\<close> index: a panic outside \<open>0 \<le> i < len(xs)\<close>.\<close>

definition index :: "'a list \<Rightarrow> int \<Rightarrow> string + 'a" where
  "index xs i =
     (if 0 \<le> i \<and> i < int (length xs) then Inr (xs ! nat i)
      else Inl (indexOutOfRange i (length xs)))"

text \<open>\<open>m[key]\<close> on a \<open>map[string]string\<close>: the empty string at a missing key.\<close>

definition mapRead :: "(string \<rightharpoonup> string) \<Rightarrow> string \<Rightarrow> string" where
  "mapRead m key = (case m key of None \<Rightarrow> '''' | Some v \<Rightarrow> v)"

text \<open>
  The check that \<open>portforward.New\<close> of client-go makes on the mapping before anything
  else. The program passes \<open>fmt.Sprintf("%d:%d", 8080, remote)\<close>; the library parses the
  remote part with \<open>strconv.ParseUint(_, 10, 16)\<close> and then refuses the port 0.
\<close>

definition parsePorts :: "32 word \<Rightarrow> error option" where
  "parsePorts remote =
     (if sint remote < 0
      then Some (ErrorString (''error parsing remote port '' @ [CHR 0x27] @ Itoa (sint remote) @
                   [CHR 0x27] @ '': '' @
                   Error (NumError ''ParseUint'' (Itoa (sint remote)) ''invalid syntax'')))
      else if 65535 < sint remote
      then Some (ErrorString (''error parsing remote port '' @ [CHR 0x27] @ Itoa (sint remote) @
                   [CHR 0x27] @ '': '' @
                   Error (NumError ''ParseUint'' (Itoa (sint remote)) ''value out of range'')))
      else if remote = 0 then Some (ErrorString ''remote port must be > 0'')
      else None)"

section \<open>The Kubernetes objects the program reads\<close>

text \<open>
  The fields of the \<open>k8s.io/api\<close> types that the program touches. \<open>ObjectMeta\<close> is embedded
  in pods, services and deployments, as in the library, so \<open>Name\<close> and \<open>Labels\<close> read on
  all three. Phases, condition types and condition statuses are strings, as in the library.
\<close>

record ObjectMeta =
  Name :: string
  Labels :: "string \<rightharpoonup> string"

record PodCondition =
  Type :: string
  Status :: string

record Pod = ObjectMeta +
  Phase :: string
  Conditions :: "PodCondition list"

definition PodPending :: string where "PodPending = ''Pending''"
definition PodRunning :: string where "PodRunning = ''Running''"
definition PodReady :: string where "PodReady = ''Ready''"
definition ConditionTrue :: string where "ConditionTrue = ''True''"

text \<open>\<open>intstr.IntOrString\<close>: a numeric value has \<open>Type = intstr_Int\<close> and an empty \<open>StrVal\<close>.\<close>

datatype IntOrStringType = intstr_Int | intstr_String

record IntOrString =
  Type :: IntOrStringType
  IntVal :: "32 word"
  StrVal :: string

definition FromInt :: "32 word \<Rightarrow> IntOrString" where
  "FromInt val = \<lparr>IntOrString.Type = intstr_Int, IntVal = val, StrVal = ''''\<rparr>"

definition FromString :: "string \<Rightarrow> IntOrString" where
  "FromString val = \<lparr>IntOrString.Type = intstr_String, IntVal = 0, StrVal = val\<rparr>"

record ServicePort =
  Name :: string
  TargetPort :: IntOrString

record Service = ObjectMeta +
  Selector :: "string \<rightharpoonup> string"
  Ports :: "ServicePort list"

record ContainerPort =
  Name :: string
  ContainerPort :: "32 word"

record Container =
  Ports :: "ContainerPort list"

text \<open>\<open>Containers\<close> is \<open>Spec.Template.Spec.Containers\<close> of the deployment.\<close>

record Deployment = ObjectMeta +
  Containers :: "Container list"

text \<open>The fields of \<open>rest.Config\<close> that the program sets.\<close>

record Config =
  GroupVersion :: "(string \<times> string) option"
  APIPath :: string
  NegotiatedSerializer :: "string option"

section \<open>The collaborators\<close>

text \<open>
  What the cluster, the port forwarder and the probed endpoint answer. The answers are a
  parameter of the program and do not change during a run.
  \<^item> \<open>BuildConfigFromFlags path\<close>: \<open>clientcmd.BuildConfigFromFlags("", path)\<close>;
  \<^item> \<open>NewForConfig\<close>, \<open>RESTClientFor\<close>: the error, if any, of building a client;
  \<^item> \<open>Namespaces_List\<close>: the names of the namespaces; \<open>Pods_List ns\<close>, \<open>Services_List ns\<close>,
    \<open>Deployments_Get ns name\<close>: the typed client's calls;
  \<^item> \<open>portforward_New ns pod remote\<close>: the error, if any, of \<open>portforward.New\<close> for the
    mapping \<open>8080:remote\<close> to that pod;
  \<^item> \<open>Ready pod\<close>: whether the forwarder to that pod ever closes its ready channel;
  \<^item> \<open>http_Get pod\<close>: what \<open>GET http://localhost:8080/internal/metrics\<close> gives while the
    tunnel to that pod is up: an error, or the status code of the response.
\<close>

record collaborators =
  BuildConfigFromFlags :: "string \<Rightarrow> error + Config"
  NewForConfig :: "Config \<Rightarrow> error option"
  Namespaces_List :: "error + string list"
  Pods_List :: "string \<Rightarrow> error + Pod list"
  Services_List :: "string \<Rightarrow> error + Service list"
  Deployments_Get :: "string \<Rightarrow> string \<Rightarrow> error + Deployment"
  RESTClientFor :: "Config \<Rightarrow> error option"
  portforward_New :: "string \<Rightarrow> string \<Rightarrow> 32 word \<Rightarrow> error option"
  Ready :: "string \<Rightarrow> bool"
  http_Get :: "string \<Rightarrow> error + int"

section \<open>Package main: the troubleshooting pipeline\<close>

text \<open>
  What happens to the tunnels: \<open>Forward pod\<close> when the forwarding goroutine to a pod is
  started, \<open>Stop pod\<close> when its stop channel is closed.
\<close>

datatype tunnelEvent = Forward string | Stop string

text \<open>
  \<open>type Kubetrbl struct\<close>, on top of the store of its machine. \<open>stdin\<close> holds the lines
  that \<open>reader\<close> has still to deliver (each without its line feed); \<open>k8sClient\<close> tells
  whether the client pointer is set; the pointers \<open>config\<close>, \<open>controller\<close> and \<open>pods\<close> are
  \<open>None\<close> while nil; \<open>tunnels\<close> is the history of the tunnels. The field \<open>err\<close> of the
  source is never read or written and is left out.
\<close>

record Kubetrbl = store +
  stdin :: "string list"
  cfg :: string
  k8sClient :: bool
  namespace :: string
  config :: "Config option"
  svc :: Service
  svcPort :: ServicePort
  controller :: "Deployment option"
  containerPort :: ContainerPort
  podList :: "Pod list"
  podPort :: ContainerPort
  pods :: "Pod list option"
  tunnels :: "tunnelEvent list"

type_synonym K = "unit Kubetrbl_ext"

definition zeroContainerPort :: ContainerPort where
  "zeroContainerPort = \<lparr>ContainerPort.Name = '''', ContainerPort = 0\<rparr>"

definition NewKubetrblStore :: "string list \<Rightarrow> Kubetrbl" where
  "NewKubetrblStore input =
     \<lparr>State = '''', stdout = [], stdin = input, cfg = '''', k8sClient = False,
      namespace = '''', config = None,
      svc = \<lparr>ObjectMeta.Name = '''', Labels = Map.empty, Selector = Map.empty,
             Service.Ports = []\<rparr>,
      svcPort = \<lparr>ServicePort.Name = '''',
                 TargetPort = \<lparr>IntOrString.Type = intstr_Int, IntVal = 0, StrVal = ''''\<rparr>\<rparr>,
      controller = None, containerPort = zeroContainerPort, podList = [],
      podPort = zeroContainerPort, pods = None, tunnels = []\<rparr>"

text \<open>
  The handlers reach their machine through \<open>k.fsm\<close>; here they take its \<open>Change\<close> and
  \<open>Update\<close> as arguments, and the machine is tied to them further down.
\<close>

type_synonym change = "string \<Rightarrow> Kubetrbl \<Rightarrow> (Kubetrbl, unit) exec"
type_synonym update = "Kubetrbl \<Rightarrow> (Kubetrbl, unit) exec"

text \<open>\<open>k.fsm.Change(...); return nil\<close>\<close>

definition returnNil :: "(Kubetrbl, unit) exec \<Rightarrow> (Kubetrbl, error option) exec" where
  "returnNil r = andThen r (\<lambda>_ k. Returns k None)"

definition checkMark :: string where
  "checkMark = [CHR 0xE2, CHR 0x9C, CHR 0x93]"

definition crossMark :: string where
  "crossMark = [CHR 0xE2, CHR 0x9C, CHR 0x97]"

definition nameLabel :: string where
  "nameLabel = ''app.kubernetes.io/name''"

definition readString :: "Kubetrbl \<Rightarrow> Kubetrbl \<times> (error + string)" where
  "readString k =
     (case stdin k of
        [] \<Rightarrow> (k, Inl EOF)
      | str # rest \<Rightarrow> (k\<lparr>stdin := rest\<rparr>, Inr (TrimSpace str)))"

definition readInt :: "Kubetrbl \<Rightarrow> Kubetrbl \<times> (error + int)" where
  "readInt k =
     (case readString k of
        (k', Inl err) \<Rightarrow> (k', Inl err)
      | (k', Inr str) \<Rightarrow> (k', Atoi str))"

text \<open>\<open>for i, nm := range names { fmt.Println(strconv.Itoa(i) + ") " + nm) }\<close>\<close>

fun printIndexed :: "nat \<Rightarrow> string list \<Rightarrow> Kubetrbl \<Rightarrow> Kubetrbl" where
  "printIndexed i [] k = k"
| "printIndexed i (nm # nms) k = printIndexed (Suc i) nms (Println (Itoa (int i) @ '') '' @ nm) k)"

definition finish :: "K callback" where
  "finish k = Returns (Println ''See ya!'' k) None"

text \<open>The handler \<open>welcome\<close> (the name alone is a command of Isabelle).\<close>

definition welcome' :: "change \<Rightarrow> K callback" where
  "welcome' fsmChange k =
     (let k1 = Println ''Wecome to Kubetrbl.'' k;
          k2 = Println ''Kubetrbl aims to provide a guided method for troubleshooting a Kubernetes deployment.'' k1;
          k3 = Println ''Kubetrbl's actions are based off of the troubleshooting flow described at https://learnk8s.io/a/troubleshooting-kubernetes.pdf.'' k2;
          k4 = Println '''' k3
      in returnNil (fsmChange ''getKubeConfig'' k4))"

definition getKubeConfig :: "update \<Rightarrow> K callback" where
  "getKubeConfig fsmUpdate k =
     (let k1 = Println ''We need to start by connecting to a Kubernetes cluster.'' k;
          k2 = Println ''Enter the location of your KUBECONFIG file: '' k1
      in case readString k2 of
           (k3, Inl err) \<Rightarrow> Returns k3 (Some err)
         | (k3, Inr str) \<Rightarrow> returnNil (fsmUpdate (k3\<lparr>cfg := str\<rparr>)))"

definition createK8sClient :: "collaborators \<Rightarrow> change \<Rightarrow> K callback" where
  "createK8sClient w fsmChange k =
     (case BuildConfigFromFlags w (cfg k) of
        Inl err \<Rightarrow> Returns k (Some err)
      | Inr c \<Rightarrow>
          (let k1 = k\<lparr>config := Some c\<rparr>
           in case NewForConfig w c of
                Some err \<Rightarrow> Returns (k1\<lparr>k8sClient := False\<rparr>) (Some err)
              | None \<Rightarrow> returnNil (fsmChange ''getNamespace'' (k1\<lparr>k8sClient := True\<rparr>))))"

definition getNamespace :: "collaborators \<Rightarrow> change \<Rightarrow> K callback" where
  "getNamespace w fsmChange k =
     (if \<not> k8sClient k then Panics k nilDereference
      else case Namespaces_List w of
        Inl err \<Rightarrow> Returns k (Some err)
      | Inr nms \<Rightarrow>
          (let k1 = Println ''Available namespaces:'' k;
               k2 = printIndexed 0 nms k1;
               k3 = Printf ''Kubernetes namespace? '' k2
           in case readInt k3 of
                (k4, Inl err) \<Rightarrow> Returns k4 (Some err)
              | (k4, Inr answer) \<Rightarrow>
                  (case index nms answer of
                     Inl msg \<Rightarrow> Panics k4 msg
                   | Inr nm \<Rightarrow> returnNil (fsmChange ''countPods'' (k4\<lparr>namespace := nm\<rparr>)))))"

definition countPods :: "collaborators \<Rightarrow> change \<Rightarrow> K callback" where
  "countPods w fsmChange k =
     (if \<not> k8sClient k then Panics k nilDereference
      else case Pods_List w (namespace k) of
        Inl err \<Rightarrow> Returns k (Some err)
      | Inr items \<Rightarrow>
          (let k1 = Printf (''There are '' @ Itoa (int (length items)) @
                              '' pods in the cluster+namespace.\<newline>'') k
           in returnNil (fsmChange ''checkPendingPods'' (k1\<lparr>pods := Some items\<rparr>))))"

text \<open>
  The three checks stop at the first pod found (\<open>return nil\<close> inside the loop), without a
  transition.
\<close>

definition checkPendingPods :: "change \<Rightarrow> K callback" where
  "checkPendingPods fsmChange k =
     (case pods k of
        None \<Rightarrow> Panics k nilDereference
      | Some items \<Rightarrow>
          (case find (\<lambda>pod. Phase pod = PodPending) items of
             Some pod \<Rightarrow> Returns (Println (crossMark @ '' Pending - '' @ ObjectMeta.Name pod) k) None
           | None \<Rightarrow>
               returnNil (fsmChange ''checkRunningPods''
                            (Println (checkMark @ '' No pods are pending.'') k))))"

definition checkRunningPods :: "change \<Rightarrow> K callback" where
  "checkRunningPods fsmChange k =
     (case pods k of
        None \<Rightarrow> Panics k nilDereference
      | Some items \<Rightarrow>
          (case find (\<lambda>pod. Phase pod \<noteq> PodRunning) items of
             Some pod \<Rightarrow> Returns (Println (''### Not running - '' @ ObjectMeta.Name pod) k) None
           | None \<Rightarrow>
               returnNil (fsmChange ''checkReadyPods''
                            (Println (checkMark @ '' All pods are running.'') k))))"

definition checkReadyPods :: "change \<Rightarrow> K callback" where
  "checkReadyPods fsmChange k =
     (case pods k of
        None \<Rightarrow> Panics k nilDereference
      | Some items \<Rightarrow>
          (case find (\<lambda>pod. list_ex (\<lambda>c. PodCondition.Type c = PodReady \<and> Status c \<noteq> ConditionTrue)
                                 (Conditions pod)) items of
             Some pod \<Rightarrow> Returns (Println (''### Not ready - '' @ ObjectMeta.Name pod) k) None
           | None \<Rightarrow>
               returnNil (fsmChange ''getServiceName''
                            (Println (checkMark @ '' All pods are ready.'') k))))"

definition getServiceName :: "collaborators \<Rightarrow> change \<Rightarrow> K callback" where
  "getServiceName w fsmChange k =
     (if \<not> k8sClient k then Panics k nilDereference
      else case Services_List w (namespace k) of
        Inl err \<Rightarrow> Returns k (Some err)
      | Inr items \<Rightarrow>
          (let k1 = Println ''Available services: '' k;
               k2 = printIndexed 0 (map ObjectMeta.Name items) k1;
               k3 = Printf ''Which service? '' k2
           in case readInt k3 of
                (k4, Inl err) \<Rightarrow> Returns k4 (Some err)
              | (k4, Inr answer) \<Rightarrow>
                  (case index items answer of
                     Inl msg \<Rightarrow> Panics k4 msg
                   | Inr s \<Rightarrow> returnNil (fsmChange ''getServicePort'' (k4\<lparr>svc := s\<rparr>)))))"

definition getServicePort :: "change \<Rightarrow> K callback" where
  "getServicePort fsmChange k =
     (let k1 = Println ''Available ports: '' k;
          k2 = printIndexed 0 (map ServicePort.Name (Service.Ports (svc k))) k1;
          k3 = Printf ''Which port? '' k2
      in case readInt k3 of
           (k4, Inl err) \<Rightarrow> Returns k4 (Some err)
         | (k4, Inr answer) \<Rightarrow>
             (case index (Service.Ports (svc k4)) answer of
                Inl msg \<Rightarrow> Panics k4 msg
              | Inr p \<Rightarrow> returnNil (fsmChange ''getControllerWorkload'' (k4\<lparr>svcPort := p\<rparr>))))"

definition getControllerWorkload :: "collaborators \<Rightarrow> change \<Rightarrow> K callback" where
  "getControllerWorkload w fsmChange k =
     (let k8sName = mapRead (Selector (svc k)) nameLabel
      in if \<not> k8sClient k then Panics k nilDereference
         else case Deployments_Get w (namespace k) k8sName of
           Inl err \<Rightarrow> Returns k (Some err)
         | Inr deployment \<Rightarrow>
             (let k1 = k\<lparr>controller := Some deployment\<rparr>;
                  k2 = Println (checkMark @ '' Found backing Deployment - '' @
                                  ObjectMeta.Name deployment) k1
              in returnNil (fsmChange ''getContainerPort'' k2)))"

text \<open>
  The two loops of \<open>getContainerPort\<close>, with the value of \<open>k.containerPort\<close> threaded
  through. The inner loop stops at the first port whose name is the target (\<open>break\<close>);
  the outer loop goes through every container.
\<close>

fun scanPorts :: "string \<Rightarrow> ContainerPort list \<Rightarrow> ContainerPort \<Rightarrow> ContainerPort" where
  "scanPorts tgt [] cp = cp"
| "scanPorts tgt (p # ps) cp = (if tgt = ContainerPort.Name p then p else scanPorts tgt ps cp)"

fun scanContainers :: "string \<Rightarrow> Container list \<Rightarrow> ContainerPort \<Rightarrow> ContainerPort" where
  "scanContainers tgt [] cp = cp"
| "scanContainers tgt (cnt # cnts) cp =
     scanContainers tgt cnts (scanPorts tgt (Container.Ports cnt) cp)"

definition getContainerPort :: "change \<Rightarrow> K callback" where
  "getContainerPort fsmChange k =
     (let tgt = StrVal (TargetPort (svcPort k))
      in case controller k of
           None \<Rightarrow> Panics k nilDereference
         | Some ctl \<Rightarrow>
             (let k1 = k\<lparr>containerPort := scanContainers tgt (Containers ctl) (containerPort k)\<rparr>;
                  k2 = Println (checkMark @ '' Identified pod port: '' @
                                  Itoa (sint (ContainerPort (containerPort k1)))) k1
              in returnNil (fsmChange ''getControllerPods'' k2)))"

text \<open>The loop of \<open>getControllerPods\<close>, with \<open>result\<close> threaded through.\<close>

fun selectPods :: "string \<Rightarrow> Pod list \<Rightarrow> Pod list \<Rightarrow> Pod list" where
  "selectPods tgt [] result = result"
| "selectPods tgt (p # ps) result =
     (let pos = mapRead (Labels p) nameLabel
      in selectPods tgt ps (if tgt = pos then result @ [p] else result))"

definition getControllerPods :: "change \<Rightarrow> K callback" where
  "getControllerPods fsmChange k =
     (case controller k of
        None \<Rightarrow> Panics k nilDereference
      | Some ctl \<Rightarrow>
          (let tgt = mapRead (Labels ctl) nameLabel
           in case pods k of
                None \<Rightarrow> Panics k nilDereference
              | Some items \<Rightarrow>
                  (let result = selectPods tgt items []
                   in returnNil (fsmChange ''validateContainerPort'' (k\<lparr>podList := result\<rparr>)))))"

text \<open>The defaults that \<open>validateContainerPort\<close> fills into the configuration.\<close>

definition matchVersion :: "Config \<Rightarrow> Config" where
  "matchVersion c =
     (let c1 = (if GroupVersion c = None then c\<lparr>GroupVersion := Some ('''', ''v1'')\<rparr> else c);
          c2 = (if APIPath c1 = '''' then c1\<lparr>APIPath := ''/api''\<rparr> else c1)
      in if NegotiatedSerializer c2 = None
         then c2\<lparr>NegotiatedSerializer := Some ''WithoutConversion''\<rparr> else c2)"

text \<open>
  The loop of \<open>validateContainerPort\<close> over \<open>k.podList\<close>. Its result is the error of an
  early \<open>return err\<close>, or \<open>None\<close> when the loop has run to its end.
\<close>

fun probePods :: "collaborators \<Rightarrow> Pod list \<Rightarrow> Kubetrbl \<Rightarrow> (Kubetrbl, error option) exec" where
  "probePods w [] k = Returns k None"
| "probePods w (pod # rest) k =
     (let k1 = Printf (''Checking accessibility of port for pod '' @ [CHR 0x27] @
                         ObjectMeta.Name pod @ [CHR 0x27] @ ''.\<newline>'') k
      in case portforward_New w (namespace k1) (ObjectMeta.Name pod)
                (ContainerPort (containerPort k1)) of
           Some err \<Rightarrow> Returns k1 (Some err)
         | None \<Rightarrow>
             (let k2 = k1\<lparr>tunnels := tunnels k1 @ [Forward (ObjectMeta.Name pod)]\<rparr>
              in if \<not> Ready w (ObjectMeta.Name pod) then Blocks k2
                 else case http_Get w (ObjectMeta.Name pod) of
                   Inl err \<Rightarrow> Returns k2 (Some err)
                 | Inr StatusCode \<Rightarrow>
                     (let k3 = (if StatusCode < 400
                                then Println (checkMark @ '' Pod port accessible.'') k2
                                else Println (crossMark @ '' Pod port inaccessible.'') k2);
                          k4 = k3\<lparr>tunnels := tunnels k3 @ [Stop (ObjectMeta.Name pod)]\<rparr>
                      in probePods w rest k4)))"

definition validateContainerPort :: "collaborators \<Rightarrow> change \<Rightarrow> K callback" where
  "validateContainerPort w fsmChange k =
     (case config k of
        None \<Rightarrow> Panics k nilDereference
      | Some c \<Rightarrow>
          (let k1 = k\<lparr>config := Some (matchVersion c)\<rparr>
           in case RESTClientFor w (matchVersion c) of
                Some err \<Rightarrow> Returns k1 (Some err)
              | None \<Rightarrow>
                  andThen (probePods w (podList k1) k1)
                    (\<lambda>early k2. case early of
                         Some err \<Rightarrow> Returns k2 (Some err)
                       | None \<Rightarrow> returnNil (fsmChange ''finish'' k2))))"

text \<open>
  \<open>NewKubetrbl\<close>: the machine with the program's error handler (print, then re-enter the
  current state) and its fourteen states, registered in the order of the source.
\<close>

definition kubetrblErrorHandler :: "change \<Rightarrow> Kubetrbl \<Rightarrow> error \<Rightarrow> (Kubetrbl, unit) exec" where
  "kubetrblErrorHandler fsmChange f err =
     (let f1 = Println ''An error occurred when troubleshooting your Kubernetes deployment.'' f;
          f2 = Println (Error err) f1
      in fsmChange (State f2) f2)"

definition onEnter :: "K callback \<Rightarrow> K State" where
  "onEnter cb = \<lparr>Enter = Some cb, Update = None, Exit = None\<rparr>"

definition NewKubetrbl :: "collaborators \<Rightarrow> change \<Rightarrow> update \<Rightarrow> K FSM" where
  "NewKubetrbl w fsmChange fsmUpdate =
     foldl (\<lambda>machine (name, state). Register name state machine)
       (NewFSM\<lparr>ErrorHandler := kubetrblErrorHandler fsmChange\<rparr>)
       [(''welcome'', onEnter (welcome' fsmChange)),
        (''finish'', onEnter finish),
        (''getKubeConfig'',
           \<lparr>Enter = Some (getKubeConfig fsmUpdate),
            Update = Some (createK8sClient w fsmChange), Exit = None\<rparr>),
        (''getNamespace'', onEnter (getNamespace w fsmChange)),
        (''countPods'', onEnter (countPods w fsmChange)),
        (''checkPendingPods'', onEnter (checkPendingPods fsmChange)),
        (''checkRunningPods'', onEnter (checkRunningPods fsmChange)),
        (''checkReadyPods'', onEnter (checkReadyPods fsmChange)),
        (''getServiceName'', onEnter (getServiceName w fsmChange)),
        (''getServicePort'', onEnter (getServicePort fsmChange)),
        (''getControllerWorkload'', onEnter (getControllerWorkload w fsmChange)),
        (''getContainerPort'', onEnter (getContainerPort fsmChange)),
        (''getControllerPods'', onEnter (getControllerPods fsmChange)),
        (''validateContainerPort'', onEnter (validateContainerPort w fsmChange))]"

text \<open>
  The machine tied to its handlers. A handler calls \<open>Change\<close> or \<open>Update\<close> of the machine
  it is registered in, which calls a handler again, and the error handler re-enters the
  current state for as long as it fails: the nesting of these calls has no bound, so it is
  counted. \<open>kubetrbl w n\<close> is the machine whose handlers may nest \<open>n\<close> calls deep; a call
  beyond that depth is \<open>OutOfFuel\<close>.
\<close>

fun kubetrbl :: "collaborators \<Rightarrow> nat \<Rightarrow> K FSM" where
  "kubetrbl w 0 = NewKubetrbl w (\<lambda>_ _. OutOfFuel) (\<lambda>_. OutOfFuel)"
| "kubetrbl w (Suc n) = NewKubetrbl w (FSM_Change (kubetrbl w n)) (FSM_Update (kubetrbl w n))"

definition Start :: "collaborators \<Rightarrow> nat \<Rightarrow> Kubetrbl \<Rightarrow> (Kubetrbl, unit) exec" where
  "Start w n k = FSM_Change (kubetrbl w n) ''welcome'' k"

section \<open>Example machines\<close>

text \<open>
  A machine built with \<open>NewFSM\<close> (so with the package's own error handler, which prints
  the error): state \<open>a\<close> has an \<open>Exit\<close> that fails, state \<open>b\<close> an \<open>Enter\<close> that prints.
\<close>

definition failingExit :: "unit callback" where
  "failingExit f = Returns (Println ''exit a'' f) (Some (ErrorString ''boom''))"

definition printingEnter :: "unit callback" where
  "printingEnter f = Returns (Println ''enter b'' f) None"

definition exampleFSM :: "unit FSM" where
  "exampleFSM =
     Register ''b'' \<lparr>Enter = Some printingEnter, Update = None, Exit = None\<rparr>
       (Register ''a'' \<lparr>Enter = None, Update = None, Exit = Some failingExit\<rparr> NewFSM)"

text \<open>
  The same machine with one more state: with the empty name and an \<open>Enter\<close> that prints,
  or with a state \<open>c\<close> whose \<open>Exit\<close> panics.
\<close>

definition namelessFSM :: "unit FSM" where
  "namelessFSM =
     Register '''' \<lparr>Enter = Some printingEnter, Update = None, Exit = None\<rparr> exampleFSM"

definition panickingExit :: "unit callback" where
  "panickingExit f = Panics (Println ''exit c'' f) ''exit c failed''"

definition crashingFSM :: "unit FSM" where
  "crashingFSM =
     Register ''c'' \<lparr>Enter = None, Update = None, Exit = Some panickingExit\<rparr> exampleFSM"

definition inState :: "string \<Rightarrow> store" where
  "inState name = \<lparr>State = name, stdout = []\<rparr>"

section \<open>An example cluster\<close>

text \<open>
  Three namespaces. In \<open>default\<close>: the pods \<open>web-1\<close> and \<open>web-2\<close> labelled \<open>web\<close>,
  \<open>db-1\<close> labelled \<open>db\<close>, \<open>job-1\<close> without labels and \<open>job-2\<close> with an empty value for
  the name label, all running and ready, and three services with their deployments:
  \<^item> \<open>web\<close>, with one port \<open>http\<close> whose target is the port name \<open>http\<close>; its deployment
    has two containers that both carry a port named \<open>http\<close>, 8080 in the first and 9090
    in the second;
  \<^item> \<open>cache\<close>, with one port \<open>metrics\<close> whose target is the port name \<open>metrics\<close>; its
    deployment has the same containers, so no port of that name, and is scaled to no pod;
  \<^item> \<open>db\<close>, with one port whose target is the number 5432; the one container of its
    deployment carries two ports without a name, 9187 and then 5432.

  The port forwarder accepts the remote ports that \<open>parsePorts\<close> accepts and always gets
  ready. The probe through the tunnel answers 200 on \<open>web-1\<close> and 503 on every other pod.
\<close>

definition runningPod :: "string \<Rightarrow> (string \<rightharpoonup> string) \<Rightarrow> Pod" where
  "runningPod name labels =
     \<lparr>ObjectMeta.Name = name, Labels = labels, Phase = ''Running'',
      Conditions = [\<lparr>PodCondition.Type = ''Ready'', Status = ''True''\<rparr>]\<rparr>"

definition web1 :: Pod where "web1 = runningPod ''web-1'' [nameLabel \<mapsto> ''web'']"
definition web2 :: Pod where "web2 = runningPod ''web-2'' [nameLabel \<mapsto> ''web'']"
definition db1 :: Pod where "db1 = runningPod ''db-1'' [nameLabel \<mapsto> ''db'']"
definition job1 :: Pod where "job1 = runningPod ''job-1'' Map.empty"
definition job2 :: Pod where "job2 = runningPod ''job-2'' [nameLabel \<mapsto> '''']"

definition examplePods :: "Pod list" where
  "examplePods = [web1, job1, db1, web2, job2]"

definition http8080 :: ContainerPort where
  "http8080 = \<lparr>ContainerPort.Name = ''http'', ContainerPort = 8080\<rparr>"

definition http9090 :: ContainerPort where
  "http9090 = \<lparr>ContainerPort.Name = ''http'', ContainerPort = 9090\<rparr>"

definition webDeployment :: Deployment where
  "webDeployment =
     \<lparr>ObjectMeta.Name = ''web'', Labels = [nameLabel \<mapsto> ''web''],
      Containers = [\<lparr>Container.Ports = [http8080]\<rparr>, \<lparr>Container.Ports = [http9090]\<rparr>]\<rparr>"

definition webService :: Service where
  "webService =
     \<lparr>ObjectMeta.Name = ''web'', Labels = Map.empty, Selector = [nameLabel \<mapsto> ''web''],
      Service.Ports = [\<lparr>ServicePort.Name = ''http'', TargetPort = FromString ''http''\<rparr>]\<rparr>"

definition cacheDeployment :: Deployment where
  "cacheDeployment = webDeployment\<lparr>ObjectMeta.Name := ''cache'', Labels := [nameLabel \<mapsto> ''cache'']\<rparr>"

definition metricsPort :: ServicePort where
  "metricsPort = \<lparr>ServicePort.Name = ''metrics'', TargetPort = FromString ''metrics''\<rparr>"

definition cacheService :: Service where
  "cacheService =
     \<lparr>ObjectMeta.Name = ''cache'', Labels = Map.empty, Selector = [nameLabel \<mapsto> ''cache''],
      Service.Ports = [metricsPort]\<rparr>"

definition unnamed9187 :: ContainerPort where
  "unnamed9187 = \<lparr>ContainerPort.Name = '''', ContainerPort = 9187\<rparr>"

definition unnamed5432 :: ContainerPort where
  "unnamed5432 = \<lparr>ContainerPort.Name = '''', ContainerPort = 5432\<rparr>"

definition dbDeployment :: Deployment where
  "dbDeployment =
     \<lparr>ObjectMeta.Name = ''db'', Labels = [nameLabel \<mapsto> ''db''],
      Containers = [\<lparr>Container.Ports = [unnamed9187, unnamed5432]\<rparr>]\<rparr>"

definition numericPort :: ServicePort where
  "numericPort = \<lparr>ServicePort.Name = ''postgres'', TargetPort = FromInt 5432\<rparr>"

definition dbService :: Service where
  "dbService =
     \<lparr>ObjectMeta.Name = ''db'', Labels = Map.empty, Selector = [nameLabel \<mapsto> ''db''],
      Service.Ports = [numericPort]\<rparr>"

definition exampleConfig :: Config where
  "exampleConfig = \<lparr>GroupVersion = None, APIPath = '''', NegotiatedSerializer = None\<rparr>"

definition exampleCluster :: collaborators where
  "exampleCluster =
     \<lparr>BuildConfigFromFlags = (\<lambda>path. Inr exampleConfig),
      NewForConfig = (\<lambda>c. None),
      Namespaces_List = Inr [''default'', ''kube-system'', ''prod''],
      Pods_List = (\<lambda>ns. Inr (if ns = ''default'' then examplePods else [])),
      Services_List =
        (\<lambda>ns. Inr (if ns = ''default'' then [webService, cacheService, dbService] else [])),
      Deployments_Get =
        (\<lambda>ns name.
           if ns = ''default'' \<and> name = ''web'' then Inr webDeployment
           else if ns = ''default'' \<and> name = ''cache'' then Inr cacheDeployment
           else if ns = ''default'' \<and> name = ''db'' then Inr dbDeployment
           else Inl (ErrorString ''deployments.apps not found'')),
      RESTClientFor = (\<lambda>c. None),
      portforward_New = (\<lambda>ns pod remote. parsePorts remote),
      Ready = (\<lambda>pod. True),
      http_Get = (\<lambda>pod. Inr (if pod = ''web-1'' then 200 else 503))\<rparr>"

section \<open>What a probe is expected to leave behind\<close>

text \<open>
  The lines written for one pod (the announcement, then the verdict when the probe got a
  response), the tunnel history of one completed probe, and the condition under which a
  pod's probe gets a response: the forwarder is created, becomes ready, and the request
  returns a status.
\<close>

definition checkingLine :: "Pod \<Rightarrow> string" where
  "checkingLine pod =
     ''Checking accessibility of port for pod '' @ [CHR 0x27] @ ObjectMeta.Name pod @
     [CHR 0x27] @ ''.\<newline>''"

definition verdictLines :: "error + int \<Rightarrow> string list" where
  "verdictLines response =
     (case response of
        Inl _ \<Rightarrow> []
      | Inr StatusCode \<Rightarrow>
          [if StatusCode < 400 then checkMark @ '' Pod port accessible.\<newline>''
           else crossMark @ '' Pod port inaccessible.\<newline>''])"

definition probeReport :: "collaborators \<Rightarrow> Pod \<Rightarrow> string list" where
  "probeReport w pod = checkingLine pod # verdictLines (http_Get w (ObjectMeta.Name pod))"

definition probeTunnel :: "Pod \<Rightarrow> tunnelEvent list" where
  "probeTunnel pod = [Forward (ObjectMeta.Name pod), Stop (ObjectMeta.Name pod)]"

definition tunnelUp :: "collaborators \<Rightarrow> string \<Rightarrow> 32 word \<Rightarrow> Pod \<Rightarrow> bool" where
  "tunnelUp w ns remote pod =
     (portforward_New w ns (ObjectMeta.Name pod) remote = None \<and> Ready w (ObjectMeta.Name pod))"

definition responds :: "collaborators \<Rightarrow> string \<Rightarrow> 32 word \<Rightarrow> Pod \<Rightarrow> bool" where
  "responds w ns remote pod =
     (tunnelUp w ns remote pod \<and>
      (case http_Get w (ObjectMeta.Name pod) of Inl _ \<Rightarrow> False | Inr _ \<Rightarrow> True))"

section \<open>Example stores\<close>

text \<open>
  The store as it is when \<open>getContainerPort\<close> is entered after namespace 0, service 0 and
  port 0 have been chosen in the example cluster.
\<close>

definition resolvedStore :: Kubetrbl where
  "resolvedStore =
     (NewKubetrblStore [])
       \<lparr>State := ''getContainerPort'', cfg := ''/home/me/.kube/config'', k8sClient := True,
        namespace := ''default'', config := Some exampleConfig, svc := webService,
        svcPort := \<lparr>ServicePort.Name = ''http'', TargetPort = FromString ''http''\<rparr>,
        controller := Some webDeployment, pods := Some examplePods\<rparr>"

text \<open>
  The store as it is when \<open>getContainerPort\<close> is entered after service 1 (\<open>cache\<close>) and
  its port have been chosen, and after service 2 (\<open>db\<close>) and its port have been chosen.
\<close>

definition metricsStore :: Kubetrbl where
  "metricsStore =
     resolvedStore
       \<lparr>svc := cacheService, svcPort := metricsPort, controller := Some cacheDeployment\<rparr>"

definition numericStore :: Kubetrbl where
  "numericStore =
     resolvedStore\<lparr>svc := dbService, svcPort := numericPort, controller := Some dbDeployment\<rparr>"

text \<open>
  The store as it is when \<open>getControllerPods\<close> is entered (port 9090 resolved), then with
  a deployment labelled \<open>cache\<close>, which no pod is, and with a deployment without labels.
\<close>

definition podsStore :: Kubetrbl where
  "podsStore =
     resolvedStore
       \<lparr>State := ''getControllerPods'', containerPort := http9090,
        stdout := [checkMark @ '' Identified pod port: 9090\<newline>'']\<rparr>"

definition cacheStore :: Kubetrbl where
  "cacheStore = podsStore\<lparr>controller := Some cacheDeployment\<rparr>"

definition unlabelledDeployment :: Deployment where
  "unlabelledDeployment = webDeployment\<lparr>Labels := Map.empty\<rparr>"

definition unlabelledStore :: Kubetrbl where
  "unlabelledStore = podsStore\<lparr>controller := Some unlabelledDeployment\<rparr>"

text \<open>
  The store as it is when \<open>validateContainerPort\<close> is entered with the pods \<open>web-1\<close> and
  \<open>web-2\<close> selected, the same with \<open>job-1\<close> selected as well, and the example cluster
  when the request through the tunnel to one pod fails (the others answer 200).
\<close>

definition probeStore :: Kubetrbl where
  "probeStore = podsStore\<lparr>State := ''validateContainerPort'', podList := [web1, web2]\<rparr>"

definition probeStore3 :: Kubetrbl where
  "probeStore3 = podsStore\<lparr>State := ''validateContainerPort'', podList := [web1, web2, job1]\<rparr>"

definition refusing :: "string \<Rightarrow> collaborators" where
  "refusing name =
     exampleCluster
       \<lparr>http_Get := (\<lambda>pod. if pod = name then Inl (ErrorString ''connection refused'')
                            else Inr 200)\<rparr>"

text \<open>The lines that the indexed listing of names writes, from index \<open>i\<close> on.\<close>

fun indexedLines :: "nat \<Rightarrow> string list \<Rightarrow> string list" where
  "indexedLines i [] = []"
| "indexedLines i (nm # nms) = (Itoa (int i) @ '') '' @ nm @ ''\<newline>'') # indexedLines (Suc i) nms"

text \<open>
  The store as it is when \<open>getNamespace\<close> is entered (from \<open>createK8sClient\<close>, the
  \<open>Update\<close> of state \<open>getKubeConfig\<close>), with the lines that the operator will type.
\<close>

definition connectedStore :: "string list \<Rightarrow> Kubetrbl" where
  "connectedStore input =
     (NewKubetrblStore input)
       \<lparr>State := ''getKubeConfig'', cfg := ''/home/me/.kube/config'', k8sClient := True,
        config := Some exampleConfig\<rparr>"

section \<open>Properties of package fsm\<close>

lemma andThen_Returns [simp]: "andThen (Returns s a) k = k a s"
  by (simp add: andThen_def)

lemma andThen_not_Returns:
  "(\<And>a s. \<forall>s' b. k a s \<noteq> Returns s' b) \<Longrightarrow> andThen r k \<noteq> Returns s' b"
  by (cases r) (simp_all add: andThen_def)

text \<open>
  Claim C8. \<open>Change\<close> on a name with no registered state is fatal. It never returns
  normally. With no active state, or an active state without \<open>Exit\<close>, it panics with
  \<open>Error!\<close> at once; with an active state that has an \<open>Exit\<close>, it panics with \<open>Error!\<close>
  as soon as the call of that \<open>Exit\<close> (with the error handler, if it failed) has returned,
  and if that call does not return (it panics or blocks) \<open>Change\<close> ends as that call does.
  \<open>Update\<close> with no active state returns, leaves the current state alone and only writes
  the warning line.
\<close>

theorem C8_change_unregistered_fatal_update_inactive_warns:
  "(StateDirectory m name = None \<longrightarrow>
      (\<forall>f' u. FSM_Change m name f \<noteq> Returns f' u) \<and>
      (State f = '''' \<or> Exit (lookupState m (State f)) = None \<longrightarrow>
         FSM_Change m name f = Panics (Println (noStateMessage f name) f) ''Error!'') \<and>
      (State f \<noteq> '''' \<and> Exit (lookupState m (State f)) = Some ex \<and>
       call m ex f = Returns f1 () \<longrightarrow>
         FSM_Change m name f = Panics (Println (noStateMessage f1 name) f1) ''Error!'') \<and>
      (State f \<noteq> '''' \<and> Exit (lookupState m (State f)) = Some ex \<and>
       (\<forall>f1. call m ex f \<noteq> Returns f1 ()) \<longrightarrow>
         FSM_Change m name f = call m ex f)) \<and>
   (State g = '''' \<longrightarrow>
      FSM_Update m g =
        Returns (g\<lparr>stdout := stdout g @ [''Update() called on FSM without active state.\<newline>'']\<rparr>) ())"
proof (intro impI conjI allI)
  fix f' u
  assume un: "StateDirectory m name = None"
  show "FSM_Change m name f \<noteq> Returns f' u"
    unfolding FSM_Change_def
    by (rule andThen_not_Returns) (simp add: un)
next
  assume un: "StateDirectory m name = None"
    and idle: "State f = '''' \<or> Exit (lookupState m (State f)) = None"
  from idle have "(if State f \<noteq> '''' then Exit (lookupState m (State f)) else None) = None"
    by auto
  then show "FSM_Change m name f = Panics (Println (noStateMessage f name) f) ''Error!''"
    by (simp add: FSM_Change_def un)
next
  assume un: "StateDirectory m name = None"
    and exit: "State f \<noteq> '''' \<and> Exit (lookupState m (State f)) = Some ex \<and>
      call m ex f = Returns f1 ()"
  then show "FSM_Change m name f = Panics (Println (noStateMessage f1 name) f1) ''Error!''"
    by (simp add: FSM_Change_def)
next
  assume un: "StateDirectory m name = None"
    and exit: "State f \<noteq> '''' \<and> Exit (lookupState m (State f)) = Some ex \<and>
      (\<forall>f1. call m ex f \<noteq> Returns f1 ())"
  then have "andThen (call m ex f)
      (\<lambda>_ f1. Panics (Println (noStateMessage f1 name) f1) ''Error!'') = call m ex f"
    by (cases "call m ex f") (simp_all add: andThen_def)
  with un exit show "FSM_Change m name f = call m ex f"
    by (simp add: FSM_Change_def)
next
  assume "State g = ''''"
  then show "FSM_Update m g =
      Returns (g\<lparr>stdout := stdout g @ [''Update() called on FSM without active state.\<newline>'']\<rparr>) ()"
    by (simp add: FSM_Update_def Println_def)
qed

lemma exampleFSM_directory:
  "StateDirectory exampleFSM ''a'' = Some \<lparr>Enter = None, Update = None, Exit = Some failingExit\<rparr>"
  "StateDirectory exampleFSM ''b'' = Some \<lparr>Enter = Some printingEnter, Update = None, Exit = None\<rparr>"
  "StateDirectory exampleFSM ''zzz'' = None"
  "ErrorHandler exampleFSM = (\<lambda>f err. Returns (Println (''Error: '' @ Error err) f) ())"
  by (simp_all add: exampleFSM_def Register_def NewFSM_def)

lemma namelessFSM_directory:
  "StateDirectory namelessFSM ''a'' = Some \<lparr>Enter = None, Update = None, Exit = Some failingExit\<rparr>"
  "StateDirectory namelessFSM '''' = Some \<lparr>Enter = Some printingEnter, Update = None, Exit = None\<rparr>"
  "ErrorHandler namelessFSM = (\<lambda>f err. Returns (Println (''Error: '' @ Error err) f) ())"
  by (simp_all add: namelessFSM_def exampleFSM_def Register_def NewFSM_def)

lemma crashingFSM_directory:
  "StateDirectory crashingFSM ''c'' = Some \<lparr>Enter = None, Update = None, Exit = Some panickingExit\<rparr>"
  "StateDirectory crashingFSM ''zzz'' = None"
  by (simp_all add: crashingFSM_def exampleFSM_def Register_def NewFSM_def)

lemma example_exit_calls:
  "call exampleFSM failingExit (inState ''a'') =
     Returns \<lparr>State = ''a'', stdout = [''exit a\<newline>'', ''Error: boom\<newline>'']\<rparr> ()"
  "call crashingFSM panickingExit (inState ''c'') =
     Panics \<lparr>State = ''c'', stdout = [''exit c\<newline>'']\<rparr> ''exit c failed''"
  by (simp_all add: call_def andThen_def exampleFSM_directory failingExit_def panickingExit_def
        inState_def Println_def)

theorem C8_witness:
  "StateDirectory exampleFSM ''zzz'' = None \<and> StateDirectory crashingFSM ''zzz'' = None \<and>
   FSM_Change exampleFSM ''zzz'' (inState '''') =
     Panics \<lparr>State = '''', stdout = [''FSM object &{ map[...] 0x...} has no state zzz\<newline>'']\<rparr>
       ''Error!'' \<and>
   Exit (lookupState exampleFSM ''a'') = Some failingExit \<and>
   FSM_Change exampleFSM ''zzz'' (inState ''a'') =
     Panics
       \<lparr>State = ''a'',
        stdout = [''exit a\<newline>'', ''Error: boom\<newline>'',
                  ''FSM object &{a map[...] 0x...} has no state zzz\<newline>'']\<rparr>
       ''Error!'' \<and>
   Exit (lookupState crashingFSM ''c'') = Some panickingExit \<and>
   FSM_Change crashingFSM ''zzz'' (inState ''c'') =
     Panics \<lparr>State = ''c'', stdout = [''exit c\<newline>'']\<rparr> ''exit c failed'' \<and>
   FSM_Update exampleFSM (inState '''') =
     Returns \<lparr>State = '''', stdout = [''Update() called on FSM without active state.\<newline>'']\<rparr> ()"
  using C8_change_unregistered_fatal_update_inactive_warns
          [where m = exampleFSM and name = "''zzz''" and f = "inState ''''" and g = "inState ''''"]
        C8_change_unregistered_fatal_update_inactive_warns
          [where m = exampleFSM and name = "''zzz''" and f = "inState ''a''" and ex = failingExit
             and ?f1.0 = "\<lparr>State = ''a'', stdout = [''exit a\<newline>'', ''Error: boom\<newline>'']\<rparr>"
             and g = "inState ''''"]
        C8_change_unregistered_fatal_update_inactive_warns
          [where m = crashingFSM and name = "''zzz''" and f = "inState ''c''"
             and ex = panickingExit and g = "inState ''''"
             and ?f1.0 = "inState ''''"]
  by (simp add: exampleFSM_directory crashingFSM_directory
        example_exit_calls [unfolded inState_def] lookupState_def inState_def Println_def
        noStateMessage_def)

text \<open>
  Claim C2, as the code has it. When the active state's \<open>Exit\<close> fails, \<open>Change\<close> hands the
  error to the error handler and does not abort the transition. Once the handler has
  returned it goes on as after a successful \<open>Exit\<close>: an unregistered name panics; a
  registered name other than the empty one becomes the current state, and its \<open>Enter\<close>, if
  it has one, is invoked there; the empty name, when registered, becomes the current state
  without any \<open>Enter\<close> being invoked. \<open>Change\<close> itself invokes \<open>Exit\<close> only once.
\<close>

theorem C2_exit_failure_handled_then_transition_continues:
  assumes "State f \<noteq> ''''"
    and "Exit (lookupState m (State f)) = Some ex"
    and "ex f = Returns f1 (Some err)"
    and "ErrorHandler m f1 err = Returns f2 ()"
  shows "(StateDirectory m name = None \<longrightarrow>
            FSM_Change m name f = Panics (Println (noStateMessage f2 name) f2) ''Error!'') \<and>
         (StateDirectory m name = Some tgt \<and> name \<noteq> '''' \<longrightarrow>
            FSM_Change m name f =
              (case Enter tgt of
                 None \<Rightarrow> Returns (f2\<lparr>State := name\<rparr>) ()
               | Some en \<Rightarrow> call m en (f2\<lparr>State := name\<rparr>))) \<and>
         (StateDirectory m name = Some tgt \<and> name = '''' \<longrightarrow>
            FSM_Change m name f = Returns (f2\<lparr>State := ''''\<rparr>) ())"
  using assms by (auto simp: FSM_Change_def call_def lookupState_def Let_def)

theorem C2_witness:
  "State (inState ''a'') \<noteq> '''' \<and>
   Exit (lookupState exampleFSM (State (inState ''a''))) = Some failingExit \<and>
   failingExit (inState ''a'') =
     Returns \<lparr>State = ''a'', stdout = [''exit a\<newline>'']\<rparr> (Some (ErrorString ''boom'')) \<and>
   ErrorHandler exampleFSM \<lparr>State = ''a'', stdout = [''exit a\<newline>'']\<rparr> (ErrorString ''boom'') =
     Returns \<lparr>State = ''a'', stdout = [''exit a\<newline>'', ''Error: boom\<newline>'']\<rparr> () \<and>
   StateDirectory exampleFSM ''b'' =
     Some \<lparr>Enter = Some printingEnter, Update = None, Exit = None\<rparr> \<and>
   FSM_Change exampleFSM ''b'' (inState ''a'') =
     call exampleFSM printingEnter
       \<lparr>State = ''b'', stdout = [''exit a\<newline>'', ''Error: boom\<newline>'']\<rparr> \<and>
   StateDirectory exampleFSM ''zzz'' = None \<and>
   FSM_Change exampleFSM ''zzz'' (inState ''a'') =
     Panics
       \<lparr>State = ''a'',
        stdout = [''exit a\<newline>'', ''Error: boom\<newline>'',
                  ''FSM object &{a map[...] 0x...} has no state zzz\<newline>'']\<rparr>
       ''Error!'' \<and>
   Exit (lookupState namelessFSM (State (inState ''a''))) = Some failingExit \<and>
   StateDirectory namelessFSM '''' =
     Some \<lparr>Enter = Some printingEnter, Update = None, Exit = None\<rparr> \<and>
   FSM_Change namelessFSM '''' (inState ''a'') =
     Returns \<lparr>State = '''', stdout = [''exit a\<newline>'', ''Error: boom\<newline>'']\<rparr> ()"
  using C2_exit_failure_handled_then_transition_continues
          [where f = "inState ''a''" and m = exampleFSM and ex = failingExit
             and ?f1.0 = "\<lparr>State = ''a'', stdout = [''exit a\<newline>'']\<rparr>"
             and err = "ErrorString ''boom''"
             and ?f2.0 = "\<lparr>State = ''a'', stdout = [''exit a\<newline>'', ''Error: boom\<newline>'']\<rparr>"
             and name = "''b''"
             and tgt = "\<lparr>Enter = Some printingEnter, Update = None, Exit = None\<rparr>"]
        C2_exit_failure_handled_then_transition_continues
          [where f = "inState ''a''" and m = exampleFSM and ex = failingExit
             and ?f1.0 = "\<lparr>State = ''a'', stdout = [''exit a\<newline>'']\<rparr>"
             and err = "ErrorString ''boom''"
             and ?f2.0 = "\<lparr>State = ''a'', stdout = [''exit a\<newline>'', ''Error: boom\<newline>'']\<rparr>"
             and name = "''zzz''"]
        C2_exit_failure_handled_then_transition_continues
          [where f = "inState ''a''" and m = namelessFSM and ex = failingExit
             and ?f1.0 = "\<lparr>State = ''a'', stdout = [''exit a\<newline>'']\<rparr>"
             and err = "ErrorString ''boom''"
             and ?f2.0 = "\<lparr>State = ''a'', stdout = [''exit a\<newline>'', ''Error: boom\<newline>'']\<rparr>"
             and name = "''''"
             and tgt = "\<lparr>Enter = Some printingEnter, Update = None, Exit = None\<rparr>"]
  by (simp add: exampleFSM_directory namelessFSM_directory lookupState_def inState_def
        failingExit_def Println_def noStateMessage_def)

text \<open>
  Claim C2 as stated fails: on the machine above, in state \<open>a\<close> whose \<open>Exit\<close> fails,
  \<open>Change b\<close> ends with \<open>b\<close> as the current state and with \<open>b\<close>'s \<open>Enter\<close> run.
\<close>

theorem C2_counterexample:
  "State (inState ''a'') = ''a'' \<and>
   Exit (lookupState exampleFSM ''a'') = Some failingExit \<and>
   failingExit (inState ''a'') =
     Returns \<lparr>State = ''a'', stdout = [''exit a\<newline>'']\<rparr> (Some (ErrorString ''boom'')) \<and>
   FSM_Change exampleFSM ''b'' (inState ''a'') =
     Returns \<lparr>State = ''b'',
              stdout = [''exit a\<newline>'', ''Error: boom\<newline>'', ''enter b\<newline>'']\<rparr> ()"
  by (simp add: FSM_Change_def call_def exampleFSM_directory lookupState_def inState_def
        failingExit_def printingEnter_def Println_def)

section \<open>Properties of the machine of package main\<close>

lemma NewKubetrbl_ErrorHandler:
  "ErrorHandler (NewKubetrbl w c u) = kubetrblErrorHandler c"
  by (simp add: NewKubetrbl_def Register_def NewFSM_def)

lemma NewKubetrbl_states:
  "StateDirectory (NewKubetrbl w c u) ''finish'' = Some (onEnter finish)"
  "StateDirectory (NewKubetrbl w c u) ''getNamespace'' = Some (onEnter (getNamespace w c))"
  "StateDirectory (NewKubetrbl w c u) ''getContainerPort'' = Some (onEnter (getContainerPort c))"
  "StateDirectory (NewKubetrbl w c u) ''getControllerPods'' = Some (onEnter (getControllerPods c))"
  "StateDirectory (NewKubetrbl w c u) ''validateContainerPort'' =
     Some (onEnter (validateContainerPort w c))"
  by (simp_all add: NewKubetrbl_def Register_def NewFSM_def)

lemma NewKubetrbl_no_Exit: "Exit (lookupState (NewKubetrbl w c u) s) = None"
  by (simp add: lookupState_def NewKubetrbl_def Register_def NewFSM_def onEnter_def)

lemma Change_enters:
  assumes "Exit (lookupState m (State k)) = None"
    and "StateDirectory m name = Some (onEnter cb)" and "name \<noteq> ''''"
  shows "FSM_Change m name k = call m cb (k\<lparr>State := name\<rparr>)"
  using assms by (simp add: FSM_Change_def lookupState_def Let_def onEnter_def)

lemma andThen_assoc:
  "andThen (andThen r f) g = andThen r (\<lambda>a s. andThen (f a s) g)"
  by (cases r) (simp_all add: andThen_def)

lemma andThen_unit: "andThen r (\<lambda>_ s. Returns s ()) = r"
  by (cases r) (simp_all add: andThen_def)

lemma call_returnNil: "cb k = returnNil r \<Longrightarrow> call m cb k = r"
  by (simp add: call_def returnNil_def andThen_assoc andThen_unit)

lemma call_error: "cb k = Returns k' (Some e) \<Longrightarrow> call m cb k = ErrorHandler m k' e"
  by (simp add: call_def)

lemma call_nil: "cb k = Returns k' None \<Longrightarrow> call m cb k = Returns k' ()"
  by (simp add: call_def)

lemma call_panics: "cb k = Panics k' msg \<Longrightarrow> call m cb k = Panics k' msg"
  by (simp add: call_def andThen_def)

text \<open>
  In the machine of \<open>NewKubetrbl\<close> no state has an \<open>Exit\<close>, so \<open>Change\<close> to one of its
  states sets the current state and runs that state's \<open>Enter\<close>.
\<close>

lemma NewKubetrbl_Change:
  assumes "StateDirectory (NewKubetrbl w c u) name = Some (onEnter cb)" and "name \<noteq> []"
  shows "FSM_Change (NewKubetrbl w c u) name k =
           call (NewKubetrbl w c u) cb (k\<lparr>State := name\<rparr>)"
  using assms by (simp add: Change_enters NewKubetrbl_no_Exit)

lemma enter_finish:
  "FSM_Change (NewKubetrbl w c u) ''finish'' k =
     Returns (Println ''See ya!'' (k\<lparr>State := ''finish''\<rparr>)) ()"
  by (simp add: NewKubetrbl_Change [OF NewKubetrbl_states(1)] call_def finish_def)

lemma enter_getNamespace:
  "FSM_Change (NewKubetrbl w c u) ''getNamespace'' k =
     call (NewKubetrbl w c u) (getNamespace w c) (k\<lparr>State := ''getNamespace''\<rparr>)"
  by (simp add: NewKubetrbl_Change [OF NewKubetrbl_states(2)])

lemma enter_getControllerPods:
  "FSM_Change (NewKubetrbl w c u) ''getControllerPods'' k =
     call (NewKubetrbl w c u) (getControllerPods c) (k\<lparr>State := ''getControllerPods''\<rparr>)"
  by (simp add: NewKubetrbl_Change [OF NewKubetrbl_states(4)])

lemma enter_validateContainerPort:
  "FSM_Change (NewKubetrbl w c u) ''validateContainerPort'' k =
     call (NewKubetrbl w c u) (validateContainerPort w c)
       (k\<lparr>State := ''validateContainerPort''\<rparr>)"
  by (simp add: NewKubetrbl_Change [OF NewKubetrbl_states(5)])

lemma kubetrbl_is_NewKubetrbl: "\<exists>c u. kubetrbl w n = NewKubetrbl w c u"
  by (cases n) auto

section \<open>Properties of the resolver steps\<close>

lemma selectPods_filter:
  "selectPods tgt ps result = result @ filter (\<lambda>p. mapRead (Labels p) nameLabel = tgt) ps"
  by (induction ps arbitrary: result) (auto simp: Let_def)

lemma scanPorts_no_match:
  "\<forall>p\<in>set ps. ContainerPort.Name p \<noteq> tgt \<Longrightarrow> scanPorts tgt ps cp = cp"
  by (induction ps) auto

lemma scanContainers_no_match:
  "\<forall>cnt\<in>set cnts. \<forall>p\<in>set (Container.Ports cnt). ContainerPort.Name p \<noteq> tgt \<Longrightarrow>
   scanContainers tgt cnts cp = cp"
  by (induction cnts arbitrary: cp) (auto simp: scanPorts_no_match)

text \<open>What one call of each resolver step does, for any store and any machine.\<close>

lemma getContainerPort_step:
  assumes "controller k = Some ctl"
  shows "getContainerPort c k =
           returnNil (c ''getControllerPods''
             (Println (checkMark @ '' Identified pod port: '' @
                         Itoa (sint (ContainerPort
                           (scanContainers (StrVal (TargetPort (svcPort k))) (Containers ctl)
                              (containerPort k)))))
                (k\<lparr>containerPort :=
                     scanContainers (StrVal (TargetPort (svcPort k))) (Containers ctl)
                       (containerPort k)\<rparr>)))"
  using assms by (simp add: getContainerPort_def Let_def)

lemma getContainerPort_no_match_step:
  assumes "controller k = Some ctl"
    and "\<forall>cnt\<in>set (Containers ctl). \<forall>p\<in>set (Container.Ports cnt).
           ContainerPort.Name p \<noteq> StrVal (TargetPort (svcPort k))"
  shows "getContainerPort c k =
           returnNil (c ''getControllerPods''
             (Println (checkMark @ '' Identified pod port: '' @
                         Itoa (sint (ContainerPort (containerPort k)))) k))"
  using assms
  by (simp add: getContainerPort_step [OF assms(1)] scanContainers_no_match)

lemma getControllerPods_step:
  assumes "controller k = Some ctl" and "pods k = Some items"
  shows "getControllerPods c k =
           returnNil (c ''validateContainerPort''
             (k\<lparr>podList :=
                  filter (\<lambda>p. mapRead (Labels p) nameLabel = mapRead (Labels ctl) nameLabel)
                    items\<rparr>))"
  using assms by (simp add: getControllerPods_def Let_def selectPods_filter)

section \<open>Properties of the probing loop\<close>

lemma probePods_step:
  assumes "responds w (namespace k) (ContainerPort (containerPort k)) pod"
  shows "probePods w (pod # rest) k =
           probePods w rest
             (k\<lparr>stdout := stdout k @ probeReport w pod,
                tunnels := tunnels k @ probeTunnel pod\<rparr>)"
  using assms
  by (auto simp: responds_def tunnelUp_def probeReport_def probeTunnel_def verdictLines_def
        checkingLine_def Println_def Printf_def Let_def split: sum.splits)

lemma probePods_append:
  assumes "\<forall>p\<in>set pre. responds w (namespace k) (ContainerPort (containerPort k)) p"
  shows "probePods w (pre @ rest) k =
           probePods w rest
             (k\<lparr>stdout := stdout k @ concat (map (probeReport w) pre),
                tunnels := tunnels k @ concat (map probeTunnel pre)\<rparr>)"
  using assms
proof (induction pre arbitrary: k)
  case Nil
  show ?case by simp
next
  case (Cons p pre)
  let ?k = "k\<lparr>stdout := stdout k @ probeReport w p, tunnels := tunnels k @ probeTunnel p\<rparr>"
  from Cons.prems have p: "responds w (namespace k) (ContainerPort (containerPort k)) p"
    by simp
  from Cons.prems
  have rest: "\<forall>q\<in>set pre. responds w (namespace ?k) (ContainerPort (containerPort ?k)) q"
    by simp
  have "probePods w ((p # pre) @ rest) k = probePods w (pre @ rest) ?k"
    using probePods_step [OF p] by simp
  also have "\<dots> =
      probePods w rest
        (?k\<lparr>stdout := stdout ?k @ concat (map (probeReport w) pre),
            tunnels := tunnels ?k @ concat (map probeTunnel pre)\<rparr>)"
    by (rule Cons.IH [OF rest])
  finally show ?case by simp
qed

lemma probePods_request_error:
  assumes "tunnelUp w (namespace k) (ContainerPort (containerPort k)) pod"
    and "http_Get w (ObjectMeta.Name pod) = Inl e"
  shows "probePods w (pod # rest) k =
           Returns (k\<lparr>stdout := stdout k @ [checkingLine pod],
                      tunnels := tunnels k @ [Forward (ObjectMeta.Name pod)]\<rparr>) (Some e)"
  using assms by (simp add: tunnelUp_def checkingLine_def Printf_def Let_def)

lemma validateContainerPort_all_respond:
  assumes "config k = Some cf" and "RESTClientFor w (matchVersion cf) = None"
    and "\<forall>p\<in>set (podList k). responds w (namespace k) (ContainerPort (containerPort k)) p"
  shows "validateContainerPort w c k =
           returnNil (c ''finish''
             (k\<lparr>config := Some (matchVersion cf),
                stdout := stdout k @ concat (map (probeReport w) (podList k)),
                tunnels := tunnels k @ concat (map probeTunnel (podList k))\<rparr>))"
proof -
  let ?k1 = "k\<lparr>config := Some (matchVersion cf)\<rparr>"
  from assms(3)
  have "\<forall>p\<in>set (podList ?k1). responds w (namespace ?k1) (ContainerPort (containerPort ?k1)) p"
    by simp
  from probePods_append [OF this, of "[]"]
  have "probePods w (podList ?k1) ?k1 =
          Returns (?k1\<lparr>stdout := stdout ?k1 @ concat (map (probeReport w) (podList ?k1)),
                       tunnels := tunnels ?k1 @ concat (map probeTunnel (podList ?k1))\<rparr>) None"
    by simp
  then show ?thesis
    using assms(1,2) by (simp add: validateContainerPort_def Let_def)
qed

lemma validateContainerPort_request_error:
  assumes "config k = Some cf" and "RESTClientFor w (matchVersion cf) = None"
    and "podList k = pre @ pod # rest"
    and "\<forall>p\<in>set pre. responds w (namespace k) (ContainerPort (containerPort k)) p"
    and "tunnelUp w (namespace k) (ContainerPort (containerPort k)) pod"
    and "http_Get w (ObjectMeta.Name pod) = Inl e"
  shows "validateContainerPort w c k =
           Returns
             (k\<lparr>config := Some (matchVersion cf),
                stdout := stdout k @ concat (map (probeReport w) pre) @ [checkingLine pod],
                tunnels := tunnels k @ concat (map probeTunnel pre) @
                           [Forward (ObjectMeta.Name pod)]\<rparr>)
             (Some e)"
proof -
  let ?k1 = "k\<lparr>config := Some (matchVersion cf)\<rparr>"
  let ?k2 = "?k1\<lparr>stdout := stdout ?k1 @ concat (map (probeReport w) pre),
                 tunnels := tunnels ?k1 @ concat (map probeTunnel pre)\<rparr>"
  from assms(4)
  have pre: "\<forall>p\<in>set pre. responds w (namespace ?k1) (ContainerPort (containerPort ?k1)) p"
    by simp
  from assms(5)
  have up: "tunnelUp w (namespace ?k2) (ContainerPort (containerPort ?k2)) pod"
    by simp
  have "probePods w (podList ?k1) ?k1 = probePods w (pod # rest) ?k2"
    using probePods_append [OF pre, of "pod # rest"] assms(3) by simp
  also have "\<dots> =
      Returns (?k2\<lparr>stdout := stdout ?k2 @ [checkingLine pod],
                   tunnels := tunnels ?k2 @ [Forward (ObjectMeta.Name pod)]\<rparr>) (Some e)"
    by (rule probePods_request_error [OF up assms(6)])
  finally show ?thesis
    using assms(1,2) by (simp add: validateContainerPort_def Let_def)
qed

text \<open>
  Enough depth gives the result: from \<open>getControllerPods\<close> on, three nested calls of the
  machine take the pipeline to \<open>finish\<close> when every selected pod's probe gets a response.
\<close>

lemma run_from_validateContainerPort:
  assumes "config k = Some cf" and "RESTClientFor w (matchVersion cf) = None"
    and "\<forall>p\<in>set (podList k). responds w (namespace k) (ContainerPort (containerPort k)) p"
  shows "FSM_Change (kubetrbl w (Suc (Suc n))) ''validateContainerPort'' k =
           Returns
             (k\<lparr>State := ''finish'', config := Some (matchVersion cf),
                stdout := stdout k @ concat (map (probeReport w) (podList k)) @ [''See ya!\<newline>''],
                tunnels := tunnels k @ concat (map probeTunnel (podList k))\<rparr>) ()"
proof -
  let ?k = "k\<lparr>State := ''validateContainerPort''\<rparr>"
  have "validateContainerPort w (FSM_Change (kubetrbl w (Suc n))) ?k =
          returnNil (FSM_Change (kubetrbl w (Suc n)) ''finish''
             (?k\<lparr>config := Some (matchVersion cf),
                 stdout := stdout ?k @ concat (map (probeReport w) (podList ?k)),
                 tunnels := tunnels ?k @ concat (map probeTunnel (podList ?k))\<rparr>))"
    by (rule validateContainerPort_all_respond) (use assms in simp_all)
  from call_returnNil [of "validateContainerPort w (FSM_Change (kubetrbl w (Suc n)))" ?k, OF this]
  show ?thesis
    by (simp add: enter_validateContainerPort enter_finish Println_def)
qed

lemma run_from_getControllerPods:
  assumes "controller k = Some ctl" and "pods k = Some items"
    and "selected = filter (\<lambda>p. mapRead (Labels p) nameLabel = mapRead (Labels ctl) nameLabel) items"
    and "config k = Some cf" and "RESTClientFor w (matchVersion cf) = None"
    and "\<forall>p\<in>set selected. responds w (namespace k) (ContainerPort (containerPort k)) p"
  shows "FSM_Change (kubetrbl w (Suc (Suc (Suc n)))) ''getControllerPods'' k =
           Returns
             (k\<lparr>State := ''finish'', podList := selected, config := Some (matchVersion cf),
                stdout := stdout k @ concat (map (probeReport w) selected) @ [''See ya!\<newline>''],
                tunnels := tunnels k @ concat (map probeTunnel selected)\<rparr>) ()"
proof -
  let ?k = "k\<lparr>State := ''getControllerPods''\<rparr>"
  have "getControllerPods (FSM_Change (kubetrbl w (Suc (Suc n)))) ?k =
          returnNil (FSM_Change (kubetrbl w (Suc (Suc n))) ''validateContainerPort''
             (?k\<lparr>podList := selected\<rparr>))"
    unfolding assms(3) by (rule getControllerPods_step) (use assms in simp_all)
  from call_returnNil [of "getControllerPods (FSM_Change (kubetrbl w (Suc (Suc n))))" ?k, OF this]
  have "FSM_Change (kubetrbl w (Suc (Suc (Suc n)))) ''getControllerPods'' k =
          FSM_Change (kubetrbl w (Suc (Suc n))) ''validateContainerPort'' (?k\<lparr>podList := selected\<rparr>)"
    by (simp add: enter_getControllerPods)
  also have "\<dots> =
      Returns
        ((?k\<lparr>podList := selected\<rparr>)
           \<lparr>State := ''finish'', config := Some (matchVersion cf),
            stdout := stdout (?k\<lparr>podList := selected\<rparr>) @
                      concat (map (probeReport w) (podList (?k\<lparr>podList := selected\<rparr>))) @
                      [''See ya!\<newline>''],
            tunnels := tunnels (?k\<lparr>podList := selected\<rparr>) @
                       concat (map probeTunnel (podList (?k\<lparr>podList := selected\<rparr>)))\<rparr>) ()"
    by (rule run_from_validateContainerPort) (use assms in simp_all)
  finally show ?thesis by simp
qed

lemma run_from_getContainerPort:
  assumes "controller k = Some ctl" and "pods k = Some items"
    and "cp = scanContainers (StrVal (TargetPort (svcPort k))) (Containers ctl) (containerPort k)"
    and "selected = filter (\<lambda>p. mapRead (Labels p) nameLabel = mapRead (Labels ctl) nameLabel) items"
    and "config k = Some cf" and "RESTClientFor w (matchVersion cf) = None"
    and "\<forall>p\<in>set selected. responds w (namespace k) (ContainerPort cp) p"
  shows "getContainerPort (FSM_Change (kubetrbl w (Suc (Suc (Suc n))))) k =
           Returns
             (k\<lparr>State := ''finish'', containerPort := cp, podList := selected,
                config := Some (matchVersion cf),
                stdout := stdout k @
                          [checkMark @ '' Identified pod port: '' @ Itoa (sint (ContainerPort cp)) @
                           ''\<newline>''] @
                          concat (map (probeReport w) selected) @ [''See ya!\<newline>''],
                tunnels := tunnels k @ concat (map probeTunnel selected)\<rparr>) None"
proof -
  let ?k = "Println (checkMark @ '' Identified pod port: '' @ Itoa (sint (ContainerPort cp)))
              (k\<lparr>containerPort := cp\<rparr>)"
  have step: "getContainerPort (FSM_Change (kubetrbl w (Suc (Suc (Suc n))))) k =
          returnNil (FSM_Change (kubetrbl w (Suc (Suc (Suc n)))) ''getControllerPods'' ?k)"
    unfolding assms(3) by (rule getContainerPort_step) (rule assms(1))
  have "FSM_Change (kubetrbl w (Suc (Suc (Suc n)))) ''getControllerPods'' ?k =
      Returns
        (?k\<lparr>State := ''finish'', podList := selected, config := Some (matchVersion cf),
            stdout := stdout ?k @ concat (map (probeReport w) selected) @ [''See ya!\<newline>''],
            tunnels := tunnels ?k @ concat (map probeTunnel selected)\<rparr>) ()"
    by (rule run_from_getControllerPods [where ctl = ctl and items = items])
       (use assms in \<open>simp_all add: Println_def\<close>)
  with step show ?thesis
    by (simp add: returnNil_def Println_def)
qed



text \<open>
  No depth gives a result when the port forwarder refuses the first selected pod (as it
  does for the remote port 0): \<open>validateContainerPort\<close> returns the error, the error
  handler re-enters \<open>validateContainerPort\<close>, which fails in the same way, without end.
\<close>

lemma matchVersion_idem: "matchVersion (matchVersion c) = matchVersion c"
  by (simp add: matchVersion_def Let_def)

lemma validateContainerPort_forwarder_error:
  assumes "config k = Some cf" and "RESTClientFor w (matchVersion cf) = None"
    and "podList k = pod # rest"
    and "portforward_New w (namespace k) (ObjectMeta.Name pod) (ContainerPort (containerPort k))
           = Some e"
  shows "validateContainerPort w c k =
           Returns (k\<lparr>config := Some (matchVersion cf),
                      stdout := stdout k @ [checkingLine pod]\<rparr>) (Some e)"
  using assms by (simp add: validateContainerPort_def Let_def checkingLine_def Printf_def)

lemma validation_reenters_without_end:
  assumes "config k = Some cf" and "RESTClientFor w (matchVersion cf) = None"
    and "podList k = pod # rest"
    and "portforward_New w (namespace k) (ObjectMeta.Name pod) (ContainerPort (containerPort k))
           = Some e"
  shows "FSM_Change (kubetrbl w n) ''validateContainerPort'' k = OutOfFuel"
  using assms
proof (induction n arbitrary: k cf)
  case 0
  let ?c = "\<lambda>(_::string) (_::Kubetrbl). (OutOfFuel :: (Kubetrbl, unit) exec)"
  let ?k = "k\<lparr>State := ''validateContainerPort''\<rparr>"
  have "validateContainerPort w ?c ?k =
      Returns (?k\<lparr>config := Some (matchVersion cf),
                   stdout := stdout ?k @ [checkingLine pod]\<rparr>) (Some e)"
    by (rule validateContainerPort_forwarder_error [where rest = rest]) (use 0 in simp_all)
  then show ?case
    by (simp add: enter_validateContainerPort call_def NewKubetrbl_ErrorHandler
          kubetrblErrorHandler_def Let_def)
next
  case (Suc n)
  let ?c = "FSM_Change (kubetrbl w n)"
  let ?k = "k\<lparr>State := ''validateContainerPort''\<rparr>"
  let ?k1 = "?k\<lparr>config := Some (matchVersion cf), stdout := stdout ?k @ [checkingLine pod]\<rparr>"
  let ?k2 = "Println (Error e)
               (Println ''An error occurred when troubleshooting your Kubernetes deployment.'' ?k1)"
  have "validateContainerPort w ?c ?k = Returns ?k1 (Some e)"
    by (rule validateContainerPort_forwarder_error [where rest = rest]) (use Suc.prems in simp_all)
  then have "FSM_Change (kubetrbl w (Suc n)) ''validateContainerPort'' k =
      ?c ''validateContainerPort'' ?k2"
    by (simp add: enter_validateContainerPort call_def NewKubetrbl_ErrorHandler
          kubetrblErrorHandler_def Let_def Println_def)
  also have "\<dots> = OutOfFuel"
    by (rule Suc.IH [where cf = "matchVersion cf"])
       (use Suc.prems in \<open>simp_all add: Println_def matchVersion_idem\<close>)
  finally show ?case .
qed

section \<open>The example cluster and stores\<close>
section \<open>The example cluster and stores\<close>

lemma parsePorts_examples:
  "parsePorts 9090 = None" "parsePorts 9187 = None"
  "parsePorts 0 = Some (ErrorString ''remote port must be > 0'')"
  by (simp_all add: parsePorts_def)

lemma example_responds:
  "responds exampleCluster ns 9090 pod"
  "responds exampleCluster ns (ContainerPort http9090) pod"
  "responds exampleCluster ns 9187 pod"
  "responds exampleCluster ns (ContainerPort unnamed9187) pod"
  by (simp_all add: responds_def tunnelUp_def exampleCluster_def parsePorts_examples
        http9090_def unnamed9187_def)

lemma example_RESTClientFor: "RESTClientFor exampleCluster c = None"
  by (simp add: exampleCluster_def)

lemma example_reports:
  "probeReport exampleCluster web1 =
     [''Checking accessibility of port for pod 'web-1'.\<newline>'',
      checkMark @ '' Pod port accessible.\<newline>'']"
  "probeReport exampleCluster web2 =
     [''Checking accessibility of port for pod 'web-2'.\<newline>'',
      crossMark @ '' Pod port inaccessible.\<newline>'']"
  "probeReport exampleCluster job1 =
     [''Checking accessibility of port for pod 'job-1'.\<newline>'',
      crossMark @ '' Pod port inaccessible.\<newline>'']"
  "probeReport exampleCluster job2 =
     [''Checking accessibility of port for pod 'job-2'.\<newline>'',
      crossMark @ '' Pod port inaccessible.\<newline>'']"
  by (simp_all add: probeReport_def checkingLine_def verdictLines_def exampleCluster_def
        web1_def web2_def job1_def job2_def runningPod_def)

lemma example_tunnels:
  "probeTunnel web1 = [Forward ''web-1'', Stop ''web-1'']"
  "probeTunnel web2 = [Forward ''web-2'', Stop ''web-2'']"
  "probeTunnel job1 = [Forward ''job-1'', Stop ''job-1'']"
  "probeTunnel job2 = [Forward ''job-2'', Stop ''job-2'']"
  by (simp_all add: probeTunnel_def web1_def web2_def job1_def job2_def runningPod_def)

lemma example_labels:
  "mapRead (Labels web1) nameLabel = ''web''"
  "mapRead (Labels web2) nameLabel = ''web''"
  "mapRead (Labels db1) nameLabel = ''db''"
  "mapRead (Labels job1) nameLabel = ''''"
  "mapRead (Labels job2) nameLabel = ''''"
  "mapRead (Labels webDeployment) nameLabel = ''web''"
  "mapRead (Labels cacheDeployment) nameLabel = ''cache''"
  "mapRead (Labels unlabelledDeployment) nameLabel = ''''"
  by (simp_all add: mapRead_def web1_def web2_def db1_def job1_def job2_def runningPod_def
        webDeployment_def cacheDeployment_def unlabelledDeployment_def)

lemma example_selected:
  "filter (\<lambda>p. mapRead (Labels p) nameLabel = ''web'') examplePods = [web1, web2]"
  "filter (\<lambda>p. mapRead (Labels p) nameLabel = ''cache'') examplePods = []"
  "filter (\<lambda>p. mapRead (Labels p) nameLabel = '''') examplePods = [job1, job2]"
  by (simp_all add: examplePods_def example_labels)

lemma example_containers:
  "Containers webDeployment = [\<lparr>Container.Ports = [http8080]\<rparr>, \<lparr>Container.Ports = [http9090]\<rparr>]"
  "ContainerPort.Name http8080 = ''http''" "ContainerPort.Name http9090 = ''http''"
  "ContainerPort http8080 = 8080" "ContainerPort http9090 = 9090"
  "ContainerPort zeroContainerPort = 0"
  by (simp_all add: webDeployment_def http8080_def http9090_def zeroContainerPort_def)

lemma resolvedStore_fields:
  "State resolvedStore = ''getContainerPort''" "stdout resolvedStore = []"
  "controller resolvedStore = Some webDeployment" "pods resolvedStore = Some examplePods"
  "config resolvedStore = Some exampleConfig" "namespace resolvedStore = ''default''"
  "containerPort resolvedStore = zeroContainerPort" "tunnels resolvedStore = []"
  "podList resolvedStore = []"
  "svcPort resolvedStore = \<lparr>ServicePort.Name = ''http'', TargetPort = FromString ''http''\<rparr>"
  by (simp_all add: resolvedStore_def NewKubetrblStore_def)

lemma Itoa_examples:
  "Itoa 0 = ''0''" "Itoa 9090 = ''9090''" "Itoa 8080 = ''8080''"
  by (simp_all add: Itoa_def digits.simps digitChars_def)

text \<open>
  With the service port \<open>metrics\<close> on the deployment \<open>web\<close>, whose pods exist, the
  container port stays 0, the port forwarder refuses it, and the pipeline never returns.
\<close>

lemma port_0_never_validated:
  "getContainerPort (FSM_Change (kubetrbl exampleCluster (Suc n)))
     (resolvedStore\<lparr>svcPort := metricsPort\<rparr>) = OutOfFuel"
proof -
  let ?k = "resolvedStore\<lparr>svcPort := metricsPort\<rparr>"
  let ?c = "FSM_Change (kubetrbl exampleCluster (Suc n))"
  let ?k1 = "Println (checkMark @ '' Identified pod port: '' @
                        Itoa (sint (ContainerPort (containerPort ?k)))) ?k"
  let ?k2 = "?k1\<lparr>State := ''getControllerPods'', podList := [web1, web2]\<rparr>"
  have ctl: "controller ?k = Some webDeployment"
    by (simp add: resolvedStore_fields)
  have none: "\<forall>cnt\<in>set (Containers webDeployment). \<forall>p\<in>set (Container.Ports cnt).
      ContainerPort.Name p \<noteq> StrVal (TargetPort (svcPort ?k))"
    by (simp add: example_containers metricsPort_def FromString_def)
  have one: "getContainerPort ?c ?k = returnNil (?c ''getControllerPods'' ?k1)"
    by (rule getContainerPort_no_match_step [OF ctl none])
  have "getControllerPods (FSM_Change (kubetrbl exampleCluster n))
        (?k1\<lparr>State := ''getControllerPods''\<rparr>) =
      returnNil (FSM_Change (kubetrbl exampleCluster n) ''validateContainerPort''
        (?k1\<lparr>State := ''getControllerPods'',
             podList := filter (\<lambda>p. mapRead (Labels p) nameLabel =
                                    mapRead (Labels webDeployment) nameLabel) examplePods\<rparr>))"
    using getControllerPods_step
            [where k = "?k1\<lparr>State := ''getControllerPods''\<rparr>" and ctl = webDeployment
               and items = examplePods and c = "FSM_Change (kubetrbl exampleCluster n)"]
    by (simp add: resolvedStore_fields Println_def)
  then have two: "getControllerPods (FSM_Change (kubetrbl exampleCluster n))
        (?k1\<lparr>State := ''getControllerPods''\<rparr>) =
      returnNil (FSM_Change (kubetrbl exampleCluster n) ''validateContainerPort'' ?k2)"
    by (simp add: example_labels example_selected)
  have "?c ''getControllerPods'' ?k1 =
      call (kubetrbl exampleCluster (Suc n))
        (getControllerPods (FSM_Change (kubetrbl exampleCluster n)))
        (?k1\<lparr>State := ''getControllerPods''\<rparr>)"
    by (simp add: enter_getControllerPods)
  also have "\<dots> = FSM_Change (kubetrbl exampleCluster n) ''validateContainerPort'' ?k2"
    by (rule call_returnNil
          [of "getControllerPods (FSM_Change (kubetrbl exampleCluster n))"
              "?k1\<lparr>State := ''getControllerPods''\<rparr>", OF two])
  also have "\<dots> = OutOfFuel"
    by (rule validation_reenters_without_end
          [where cf = exampleConfig and pod = web1 and rest = "[web2]"
             and e = "ErrorString ''remote port must be > 0''"])
       (simp_all add: resolvedStore_fields Println_def example_containers exampleCluster_def
          parsePorts_examples)
  finally show ?thesis
    unfolding one by (simp add: returnNil_def andThen_def)
qed

section \<open>The claims about the resolver steps\<close>

text \<open>
  Claim C1, at the failing input. The deployment has two containers that both expose a port
  named \<open>http\<close>, 8080 in the first and 9090 in the second, and the service port targets
  \<open>http\<close>: \<open>getContainerPort\<close> ends with the second container's port, 9090, prints it, and
  the rest of the pipeline forwards to it.
\<close>

theorem C1_second_container_wins:
  "map Container.Ports (Containers webDeployment) = [[http8080], [http9090]] \<and>
   StrVal (TargetPort (svcPort resolvedStore)) = ''http'' \<and>
   getContainerPort (FSM_Change (kubetrbl exampleCluster 3)) resolvedStore =
     Returns
       (resolvedStore
          \<lparr>State := ''finish'',
           stdout :=
             [checkMark @ '' Identified pod port: 9090\<newline>'',
              ''Checking accessibility of port for pod 'web-1'.\<newline>'',
              checkMark @ '' Pod port accessible.\<newline>'',
              ''Checking accessibility of port for pod 'web-2'.\<newline>'',
              crossMark @ '' Pod port inaccessible.\<newline>'',
              ''See ya!\<newline>''],
           config := Some (matchVersion exampleConfig),
           containerPort := http9090,
           podList := [web1, web2],
           tunnels := [Forward ''web-1'', Stop ''web-1'', Forward ''web-2'', Stop ''web-2'']\<rparr>)
       None"
proof -
  have scan: "http9090 =
      scanContainers (StrVal (TargetPort (svcPort resolvedStore))) (Containers webDeployment)
        (containerPort resolvedStore)"
    by (simp add: resolvedStore_fields example_containers FromString_def)
  have sel: "[web1, web2] =
      filter (\<lambda>p. mapRead (Labels p) nameLabel = mapRead (Labels webDeployment) nameLabel)
        examplePods"
    by (simp add: example_labels example_selected)
  have "getContainerPort (FSM_Change (kubetrbl exampleCluster (Suc (Suc (Suc 0))))) resolvedStore =
      Returns
        (resolvedStore
           \<lparr>State := ''finish'', containerPort := http9090, podList := [web1, web2],
            config := Some (matchVersion exampleConfig),
            stdout := stdout resolvedStore @
                      [checkMark @ '' Identified pod port: '' @
                       Itoa (sint (ContainerPort http9090)) @ ''\<newline>''] @
                      concat (map (probeReport exampleCluster) [web1, web2]) @ [''See ya!\<newline>''],
            tunnels := tunnels resolvedStore @ concat (map probeTunnel [web1, web2])\<rparr>) None"
    by (rule run_from_getContainerPort [OF _ _ scan sel])
       (simp_all add: resolvedStore_fields example_responds example_RESTClientFor)
  then show ?thesis
    by (simp add: numeral_3_eq_3 resolvedStore_fields example_containers example_reports
          example_tunnels Itoa_examples FromString_def)
qed


lemma metricsStore_fields:
  "State metricsStore = ''getContainerPort''" "stdout metricsStore = []"
  "controller metricsStore = Some cacheDeployment" "pods metricsStore = Some examplePods"
  "config metricsStore = Some exampleConfig" "namespace metricsStore = ''default''"
  "containerPort metricsStore = zeroContainerPort" "tunnels metricsStore = []"
  "podList metricsStore = []"
  "StrVal (TargetPort (svcPort metricsStore)) = ''metrics''"
  by (simp_all add: metricsStore_def metricsPort_def resolvedStore_fields FromString_def)

lemma numericStore_fields:
  "State numericStore = ''getContainerPort''" "stdout numericStore = []"
  "controller numericStore = Some dbDeployment" "pods numericStore = Some examplePods"
  "config numericStore = Some exampleConfig" "namespace numericStore = ''default''"
  "containerPort numericStore = zeroContainerPort" "tunnels numericStore = []"
  "podList numericStore = []"
  "TargetPort (svcPort numericStore) = FromInt 5432"
  by (simp_all add: numericStore_def numericPort_def resolvedStore_fields)

lemma example_more_containers:
  "Containers cacheDeployment =
     [\<lparr>Container.Ports = [http8080]\<rparr>, \<lparr>Container.Ports = [http9090]\<rparr>]"
  "Containers dbDeployment = [\<lparr>Container.Ports = [unnamed9187, unnamed5432]\<rparr>]"
  "ContainerPort.Name unnamed9187 = ''''" "ContainerPort.Name unnamed5432 = ''''"
  "ContainerPort unnamed9187 = 9187" "ContainerPort unnamed5432 = 5432"
  by (simp_all add: cacheDeployment_def webDeployment_def dbDeployment_def unnamed9187_def
        unnamed5432_def)

lemma example_db_label: "mapRead (Labels dbDeployment) nameLabel = ''db''"
  by (simp add: mapRead_def dbDeployment_def)

lemma example_no_match:
  "\<forall>cnt\<in>set (Containers cacheDeployment). \<forall>p\<in>set (Container.Ports cnt).
     ContainerPort.Name p \<noteq> ''metrics''"
  "\<forall>cnt\<in>set (Containers webDeployment). \<forall>p\<in>set (Container.Ports cnt).
     ContainerPort.Name p \<noteq> ''''"
  by (simp_all add: example_containers example_more_containers)

lemma example_db_selected:
  "filter (\<lambda>p. mapRead (Labels p) nameLabel = ''db'') examplePods = [db1]"
  by (simp add: examplePods_def example_labels)

lemma example_db:
  "probeReport exampleCluster db1 =
     [''Checking accessibility of port for pod 'db-1'.\<newline>'',
      crossMark @ '' Pod port inaccessible.\<newline>'']"
  "probeTunnel db1 = [Forward ''db-1'', Stop ''db-1'']"
  "Itoa 9187 = ''9187''"
  by (simp_all add: probeReport_def checkingLine_def verdictLines_def probeTunnel_def
        exampleCluster_def db1_def runningPod_def Itoa_def digits.simps digitChars_def)

lemma returnNil_no_error: "returnNil r \<noteq> Returns k (Some e)"
  by (cases r) (simp_all add: returnNil_def andThen_def)

text \<open>
  Claim C5, as the code has it. When no container of the controller exposes a port whose
  name is the target, \<open>getContainerPort\<close> reports no failure: it leaves the container port
  as it was (the zero value when none was resolved before), prints its number and changes
  to \<open>getControllerPods\<close>; it ends as that change ends, with \<open>nil\<close> when the change
  returns, and in no case with an error.
\<close>

theorem C5_no_matching_port_keeps_previous_and_advances:
  assumes "controller k = Some ctl"
    and "\<forall>cnt\<in>set (Containers ctl). \<forall>p\<in>set (Container.Ports cnt).
           ContainerPort.Name p \<noteq> StrVal (TargetPort (svcPort k))"
  shows "getContainerPort fsmChange k =
           returnNil (fsmChange ''getControllerPods''
             (Println (checkMark @ '' Identified pod port: '' @
                         Itoa (sint (ContainerPort (containerPort k)))) k)) \<and>
         (\<forall>k' e. getContainerPort fsmChange k \<noteq> Returns k' (Some e))"
proof -
  have step: "getContainerPort fsmChange k =
      returnNil (fsmChange ''getControllerPods''
        (Println (checkMark @ '' Identified pod port: '' @
                    Itoa (sint (ContainerPort (containerPort k)))) k))"
    by (rule getContainerPort_no_match_step [OF assms])
  then show ?thesis
    by (simp add: returnNil_no_error)
qed

theorem C5_witness:
  "controller metricsStore = Some cacheDeployment \<and>
   StrVal (TargetPort (svcPort metricsStore)) = ''metrics'' \<and>
   map (map ContainerPort.Name \<circ> Container.Ports) (Containers cacheDeployment) =
     [[''http''], [''http'']] \<and>
   containerPort metricsStore = zeroContainerPort \<and>
   getContainerPort (FSM_Change (kubetrbl exampleCluster 3)) metricsStore =
     returnNil (FSM_Change (kubetrbl exampleCluster 3) ''getControllerPods''
       (Println (checkMark @ '' Identified pod port: 0'') metricsStore)) \<and>
   (\<forall>k' e. getContainerPort (FSM_Change (kubetrbl exampleCluster 3)) metricsStore \<noteq>
      Returns k' (Some e))"
  using C5_no_matching_port_keeps_previous_and_advances
          [of metricsStore cacheDeployment "FSM_Change (kubetrbl exampleCluster 3)"]
  by (simp add: metricsStore_fields example_no_match example_containers
        example_more_containers Itoa_examples returnNil_no_error)

text \<open>
  Claim C5 as stated fails: the service port of \<open>cache\<close> targets \<open>metrics\<close>, no container
  of its deployment has a port of that name, and \<open>getContainerPort\<close> returns no error: it
  prints port 0 and the pipeline runs on, with the zero container port, through
  \<open>getControllerPods\<close> (no pod) and \<open>validateContainerPort\<close> to \<open>finish\<close>.
\<close>

theorem C5_counterexample:
  "StrVal (TargetPort (svcPort metricsStore)) = ''metrics'' \<and>
   controller metricsStore = Some cacheDeployment \<and>
   map (map ContainerPort.Name \<circ> Container.Ports) (Containers cacheDeployment) =
     [[''http''], [''http'']] \<and>
   getContainerPort (FSM_Change (kubetrbl exampleCluster 3)) metricsStore =
     Returns
       (metricsStore
          \<lparr>State := ''finish'',
           stdout := [checkMark @ '' Identified pod port: 0\<newline>'', ''See ya!\<newline>''],
           config := Some (matchVersion exampleConfig),
           containerPort := \<lparr>ContainerPort.Name = '''', ContainerPort = 0\<rparr>,
           podList := []\<rparr>)
       None"
proof -
  have scan: "zeroContainerPort =
      scanContainers (StrVal (TargetPort (svcPort metricsStore))) (Containers cacheDeployment)
        (containerPort metricsStore)"
    by (simp add: metricsStore_fields scanContainers_no_match [OF example_no_match(1)])
  have sel: "[] =
      filter (\<lambda>p. mapRead (Labels p) nameLabel = mapRead (Labels cacheDeployment) nameLabel)
        examplePods"
    by (simp add: example_labels example_selected)
  have "getContainerPort (FSM_Change (kubetrbl exampleCluster (Suc (Suc (Suc 0))))) metricsStore =
      Returns
        (metricsStore
           \<lparr>State := ''finish'', containerPort := zeroContainerPort, podList := [],
            config := Some (matchVersion exampleConfig),
            stdout := stdout metricsStore @
                      [checkMark @ '' Identified pod port: '' @
                       Itoa (sint (ContainerPort zeroContainerPort)) @ ''\<newline>''] @
                      concat (map (probeReport exampleCluster) []) @ [''See ya!\<newline>''],
            tunnels := tunnels metricsStore @ concat (map probeTunnel [])\<rparr>) None"
    by (rule run_from_getContainerPort [OF _ _ scan sel])
       (simp_all add: metricsStore_fields example_RESTClientFor)
  then show ?thesis
    by (simp add: numeral_3_eq_3 metricsStore_fields example_containers
          example_more_containers Itoa_examples zeroContainerPort_def)
qed

text \<open>
  Claim C6, as the code has it. \<open>getContainerPort\<close> reads only the string value of the
  target, which is empty for a numeric target: whatever the number, the container port
  becomes what the scan for the empty port name gives (the previous container port when
  every port of the controller is named), and the pipeline changes to \<open>getControllerPods\<close>.
\<close>

theorem C6_numeric_target_is_not_read:
  assumes "controller k = Some ctl" and "TargetPort (svcPort k) = FromInt n"
  shows "getContainerPort fsmChange k =
           returnNil (fsmChange ''getControllerPods''
             (Println (checkMark @ '' Identified pod port: '' @
                         Itoa (sint (ContainerPort
                           (scanContainers '''' (Containers ctl) (containerPort k)))))
                (k\<lparr>containerPort := scanContainers '''' (Containers ctl) (containerPort k)\<rparr>))) \<and>
         ((\<forall>cnt\<in>set (Containers ctl). \<forall>p\<in>set (Container.Ports cnt). ContainerPort.Name p \<noteq> '''') \<longrightarrow>
            scanContainers '''' (Containers ctl) (containerPort k) = containerPort k)"
  using assms
  by (simp add: getContainerPort_step [OF assms(1)] FromInt_def scanContainers_no_match)

theorem C6_witness:
  "controller numericStore = Some dbDeployment \<and>
   TargetPort (svcPort numericStore) = FromInt 5432 \<and>
   map (map ContainerPort.Name \<circ> Container.Ports) (Containers dbDeployment) = [['''', '''']] \<and>
   scanContainers '''' (Containers dbDeployment) (containerPort numericStore) = unnamed9187 \<and>
   getContainerPort (FSM_Change (kubetrbl exampleCluster 3)) numericStore =
     returnNil (FSM_Change (kubetrbl exampleCluster 3) ''getControllerPods''
       (Println (checkMark @ '' Identified pod port: 9187'')
          (numericStore\<lparr>containerPort := unnamed9187\<rparr>))) \<and>
   controller (resolvedStore\<lparr>svcPort := numericPort\<rparr>) = Some webDeployment \<and>
   TargetPort (svcPort (resolvedStore\<lparr>svcPort := numericPort\<rparr>)) = FromInt 5432 \<and>
   map (map ContainerPort.Name \<circ> Container.Ports) (Containers webDeployment) =
     [[''http''], [''http'']] \<and>
   scanContainers '''' (Containers webDeployment)
     (containerPort (resolvedStore\<lparr>svcPort := numericPort\<rparr>)) = zeroContainerPort"
  using C6_numeric_target_is_not_read
          [of numericStore dbDeployment 5432 "FSM_Change (kubetrbl exampleCluster 3)"]
        C6_numeric_target_is_not_read
          [of "resolvedStore\<lparr>svcPort := numericPort\<rparr>" webDeployment 5432
              "FSM_Change (kubetrbl exampleCluster 3)"]
  by (simp add: numericStore_fields resolvedStore_fields numericPort_def example_no_match
        example_containers example_more_containers example_db)

text \<open>
  Claim C6 as stated fails: the service port of \<open>db\<close> targets the number 5432, and
  \<open>getContainerPort\<close> ends with container port 9187, the first port without a name; the
  pod \<open>db-1\<close> is then probed through a tunnel to 9187.
\<close>

theorem C6_counterexample:
  "TargetPort (svcPort numericStore) =
     \<lparr>IntOrString.Type = intstr_Int, IntVal = 5432, StrVal = ''''\<rparr> \<and>
   controller numericStore = Some dbDeployment \<and>
   map Container.Ports (Containers dbDeployment) =
     [[\<lparr>ContainerPort.Name = '''', ContainerPort = 9187\<rparr>,
       \<lparr>ContainerPort.Name = '''', ContainerPort = 5432\<rparr>]] \<and>
   getContainerPort (FSM_Change (kubetrbl exampleCluster 3)) numericStore =
     Returns
       (numericStore
          \<lparr>State := ''finish'',
           stdout :=
             [checkMark @ '' Identified pod port: 9187\<newline>'',
              ''Checking accessibility of port for pod 'db-1'.\<newline>'',
              crossMark @ '' Pod port inaccessible.\<newline>'',
              ''See ya!\<newline>''],
           config := Some (matchVersion exampleConfig),
           containerPort := \<lparr>ContainerPort.Name = '''', ContainerPort = 9187\<rparr>,
           podList := [db1],
           tunnels := [Forward ''db-1'', Stop ''db-1'']\<rparr>)
       None"
proof -
  have scan: "unnamed9187 =
      scanContainers (StrVal (TargetPort (svcPort numericStore))) (Containers dbDeployment)
        (containerPort numericStore)"
    by (simp add: numericStore_fields FromInt_def example_more_containers)
  have sel: "[db1] =
      filter (\<lambda>p. mapRead (Labels p) nameLabel = mapRead (Labels dbDeployment) nameLabel)
        examplePods"
    by (simp add: example_db_label example_db_selected)
  have "getContainerPort (FSM_Change (kubetrbl exampleCluster (Suc (Suc (Suc 0))))) numericStore =
      Returns
        (numericStore
           \<lparr>State := ''finish'', containerPort := unnamed9187, podList := [db1],
            config := Some (matchVersion exampleConfig),
            stdout := stdout numericStore @
                      [checkMark @ '' Identified pod port: '' @
                       Itoa (sint (ContainerPort unnamed9187)) @ ''\<newline>''] @
                      concat (map (probeReport exampleCluster) [db1]) @ [''See ya!\<newline>''],
            tunnels := tunnels numericStore @ concat (map probeTunnel [db1])\<rparr>) None"
    by (rule run_from_getContainerPort [OF _ _ scan sel])
       (simp_all add: numericStore_fields example_responds example_RESTClientFor)
  then show ?thesis
    by (simp add: numeral_3_eq_3 numericStore_fields example_more_containers example_db
          unnamed9187_def unnamed5432_def dbDeployment_def FromInt_def)
qed

lemma podsStore_fields:
  "State podsStore = ''getControllerPods''"
  "stdout podsStore = [checkMark @ '' Identified pod port: 9090\<newline>'']"
  "controller podsStore = Some webDeployment" "pods podsStore = Some examplePods"
  "config podsStore = Some exampleConfig" "namespace podsStore = ''default''"
  "containerPort podsStore = http9090" "tunnels podsStore = []" "podList podsStore = []"
  by (simp_all add: podsStore_def resolvedStore_fields)

text \<open>
  Claim C9. \<open>getControllerPods\<close> stores exactly the pods of the snapshot whose read of
  the label \<open>app.kubernetes.io/name\<close> equals the controller's read of it, in snapshot
  order, returns no error and changes to \<open>validateContainerPort\<close>; with no such pod the
  stored list is empty and the change is made all the same. In the program's machine the
  change runs the next state's handler on that store.
\<close>

theorem C9_getControllerPods_selects_matching_pods_in_order:
  assumes "controller k = Some ctl" and "pods k = Some items"
  shows "getControllerPods fsmChange k =
           returnNil (fsmChange ''validateContainerPort''
             (k\<lparr>podList :=
                  filter (\<lambda>p. mapRead (Labels p) nameLabel = mapRead (Labels ctl) nameLabel)
                    items\<rparr>)) \<and>
         ((\<forall>p\<in>set items. mapRead (Labels p) nameLabel \<noteq> mapRead (Labels ctl) nameLabel) \<longrightarrow>
            getControllerPods fsmChange k =
              returnNil (fsmChange ''validateContainerPort'' (k\<lparr>podList := []\<rparr>))) \<and>
         FSM_Change (kubetrbl w (Suc n)) ''getControllerPods'' k =
           FSM_Change (kubetrbl w n) ''validateContainerPort''
             (k\<lparr>State := ''getControllerPods'',
                podList :=
                  filter (\<lambda>p. mapRead (Labels p) nameLabel = mapRead (Labels ctl) nameLabel)
                    items\<rparr>)"
proof (intro conjI impI)
  show step: "getControllerPods fsmChange k =
      returnNil (fsmChange ''validateContainerPort''
        (k\<lparr>podList :=
             filter (\<lambda>p. mapRead (Labels p) nameLabel = mapRead (Labels ctl) nameLabel)
               items\<rparr>))"
    for fsmChange
    by (rule getControllerPods_step [OF assms])
  {
    assume "\<forall>p\<in>set items. mapRead (Labels p) nameLabel \<noteq> mapRead (Labels ctl) nameLabel"
    then have "filter (\<lambda>p. mapRead (Labels p) nameLabel = mapRead (Labels ctl) nameLabel) items = []"
      by (simp add: filter_empty_conv)
    with step [of fsmChange]
    show "getControllerPods fsmChange k =
        returnNil (fsmChange ''validateContainerPort'' (k\<lparr>podList := []\<rparr>))"
      by simp
  }
  let ?k = "k\<lparr>State := ''getControllerPods''\<rparr>"
  have "getControllerPods (FSM_Change (kubetrbl w n)) ?k =
      returnNil (FSM_Change (kubetrbl w n) ''validateContainerPort''
        (?k\<lparr>podList :=
              filter (\<lambda>p. mapRead (Labels p) nameLabel = mapRead (Labels ctl) nameLabel)
                items\<rparr>))"
    by (rule getControllerPods_step) (use assms in simp_all)
  from call_returnNil [of "getControllerPods (FSM_Change (kubetrbl w n))" ?k, OF this]
  show "FSM_Change (kubetrbl w (Suc n)) ''getControllerPods'' k =
      FSM_Change (kubetrbl w n) ''validateContainerPort''
        (k\<lparr>State := ''getControllerPods'',
           podList :=
             filter (\<lambda>p. mapRead (Labels p) nameLabel = mapRead (Labels ctl) nameLabel)
               items\<rparr>)"
    by (simp add: enter_getControllerPods)
qed

theorem C9_witness:
  "controller podsStore = Some webDeployment \<and> pods podsStore = Some examplePods \<and>
   examplePods = [web1, job1, db1, web2, job2] \<and>
   getControllerPods (FSM_Change (kubetrbl exampleCluster 2)) podsStore =
     returnNil (FSM_Change (kubetrbl exampleCluster 2) ''validateContainerPort''
       (podsStore\<lparr>podList := [web1, web2]\<rparr>)) \<and>
   controller cacheStore = Some cacheDeployment \<and> pods cacheStore = Some examplePods \<and>
   map (\<lambda>p. mapRead (Labels p) nameLabel) examplePods = [''web'', '''', ''db'', ''web'', ''''] \<and>
   mapRead (Labels cacheDeployment) nameLabel = ''cache'' \<and>
   getControllerPods (FSM_Change (kubetrbl exampleCluster 2)) cacheStore =
     returnNil (FSM_Change (kubetrbl exampleCluster 2) ''validateContainerPort''
       (cacheStore\<lparr>podList := []\<rparr>)) \<and>
   FSM_Change (kubetrbl exampleCluster 3) ''getControllerPods'' cacheStore =
     FSM_Change (kubetrbl exampleCluster 2) ''validateContainerPort''
       (cacheStore\<lparr>State := ''getControllerPods'', podList := []\<rparr>)"
  using C9_getControllerPods_selects_matching_pods_in_order
          [of podsStore webDeployment examplePods "FSM_Change (kubetrbl exampleCluster 2)"
              exampleCluster 2]
        C9_getControllerPods_selects_matching_pods_in_order
          [of cacheStore cacheDeployment examplePods "FSM_Change (kubetrbl exampleCluster 2)"
              exampleCluster 2]
  by (simp add: podsStore_fields cacheStore_def example_labels example_selected
        numeral_3_eq_3 numeral_2_eq_2)
     (simp add: examplePods_def example_labels)

lemma mapRead_empty:
  "mapRead m key = '''' \<longleftrightarrow> m key = None \<or> m key = Some ''''"
  by (simp add: mapRead_def split: option.splits)

text \<open>
  Claim C10, as the code has it. For a controller without the label
  \<open>app.kubernetes.io/name\<close>, \<open>getControllerPods\<close> selects, in snapshot order, exactly the
  pods whose read of that label is the empty string: the pods that lack the label and the
  pods that carry it with the empty value.
\<close>

theorem C10_unlabelled_controller_selects_pods_reading_empty:
  assumes "controller k = Some ctl" and "Labels ctl nameLabel = None" and "pods k = Some items"
  shows "getControllerPods fsmChange k =
           returnNil (fsmChange ''validateContainerPort''
             (k\<lparr>podList :=
                  filter (\<lambda>p. Labels p nameLabel = None \<or> Labels p nameLabel = Some '''')
                    items\<rparr>))"
proof -
  from assms(2) have ctl: "mapRead (Labels ctl) nameLabel = ''''"
    by (simp add: mapRead_def)
  have "filter (\<lambda>p. mapRead (Labels p) nameLabel = mapRead (Labels ctl) nameLabel) items =
      filter (\<lambda>p. Labels p nameLabel = None \<or> Labels p nameLabel = Some '''') items"
    unfolding ctl by (simp only: mapRead_empty)
  with getControllerPods_step [OF assms(1,3), of fsmChange] show ?thesis
    by simp
qed

lemma example_label_presence:
  "Labels unlabelledDeployment nameLabel = None"
  "Labels web1 nameLabel = Some ''web''" "Labels job1 nameLabel = None"
  "Labels db1 nameLabel = Some ''db''" "Labels web2 nameLabel = Some ''web''"
  "Labels job2 nameLabel = Some ''''"
  by (simp_all add: unlabelledDeployment_def webDeployment_def web1_def web2_def db1_def
        job1_def job2_def runningPod_def)

theorem C10_witness:
  "controller unlabelledStore = Some unlabelledDeployment \<and>
   Labels unlabelledDeployment nameLabel = None \<and>
   pods unlabelledStore = Some [web1, job1, db1, web2, job2] \<and>
   getControllerPods (FSM_Change (kubetrbl exampleCluster 2)) unlabelledStore =
     returnNil (FSM_Change (kubetrbl exampleCluster 2) ''validateContainerPort''
       (unlabelledStore\<lparr>podList := [job1, job2]\<rparr>))"
  using C10_unlabelled_controller_selects_pods_reading_empty
          [of unlabelledStore unlabelledDeployment examplePods
              "FSM_Change (kubetrbl exampleCluster 2)"]
  by (simp add: unlabelledStore_def podsStore_fields example_label_presence examplePods_def)

text \<open>
  Claim C10 as stated fails: with a controller that has no labels, the pod \<open>job-2\<close>, which
  carries the label with an empty value and so does not lack it, is selected along with
  the unlabelled \<open>job-1\<close>, and both are probed.
\<close>

theorem C10_counterexample:
  "Labels unlabelledDeployment nameLabel = None \<and>
   Labels job1 nameLabel = None \<and> Labels job2 nameLabel = Some '''' \<and>
   getControllerPods (FSM_Change (kubetrbl exampleCluster 2)) unlabelledStore =
     Returns
       (unlabelledStore
          \<lparr>State := ''finish'',
           stdout :=
             [checkMark @ '' Identified pod port: 9090\<newline>'',
              ''Checking accessibility of port for pod 'job-1'.\<newline>'',
              crossMark @ '' Pod port inaccessible.\<newline>'',
              ''Checking accessibility of port for pod 'job-2'.\<newline>'',
              crossMark @ '' Pod port inaccessible.\<newline>'',
              ''See ya!\<newline>''],
           config := Some (matchVersion exampleConfig),
           podList := [job1, job2],
           tunnels := [Forward ''job-1'', Stop ''job-1'', Forward ''job-2'', Stop ''job-2'']\<rparr>)
       None"
proof -
  let ?c = "FSM_Change (kubetrbl exampleCluster (Suc (Suc 0)))"
  let ?k = "unlabelledStore\<lparr>podList := [job1, job2]\<rparr>"
  have fields: "controller unlabelledStore = Some unlabelledDeployment"
    "pods unlabelledStore = Some examplePods" "config unlabelledStore = Some exampleConfig"
    "stdout unlabelledStore = [checkMark @ '' Identified pod port: 9090\<newline>'']"
    "tunnels unlabelledStore = []" "containerPort unlabelledStore = http9090"
    by (simp_all add: unlabelledStore_def podsStore_fields)
  have "getControllerPods ?c unlabelledStore =
      returnNil (?c ''validateContainerPort''
        (unlabelledStore\<lparr>podList :=
           filter (\<lambda>p. mapRead (Labels p) nameLabel = mapRead (Labels unlabelledDeployment) nameLabel)
             examplePods\<rparr>))"
    by (rule getControllerPods_step [OF fields(1,2)])
  then have step: "getControllerPods ?c unlabelledStore = returnNil (?c ''validateContainerPort'' ?k)"
    by (simp add: example_labels example_selected)
  have "?c ''validateContainerPort'' ?k =
      Returns
        (?k\<lparr>State := ''finish'', config := Some (matchVersion exampleConfig),
            stdout := stdout ?k @ concat (map (probeReport exampleCluster) (podList ?k)) @
                      [''See ya!\<newline>''],
            tunnels := tunnels ?k @ concat (map probeTunnel (podList ?k))\<rparr>) ()"
    by (rule run_from_validateContainerPort)
       (simp_all add: fields example_responds example_RESTClientFor)
  with step show ?thesis
    by (simp add: returnNil_def numeral_2_eq_2 fields example_reports example_tunnels
          example_label_presence)
qed

section \<open>The claims about the tunnel validation\<close>

lemma probeStore_fields:
  "State probeStore = ''validateContainerPort''"
  "stdout probeStore = [checkMark @ '' Identified pod port: 9090\<newline>'']"
  "config probeStore = Some exampleConfig" "namespace probeStore = ''default''"
  "containerPort probeStore = http9090" "tunnels probeStore = []"
  "podList probeStore = [web1, web2]"
  by (simp_all add: probeStore_def podsStore_fields)

lemma probeStore3_fields:
  "State probeStore3 = ''validateContainerPort''"
  "stdout probeStore3 = [checkMark @ '' Identified pod port: 9090\<newline>'']"
  "config probeStore3 = Some exampleConfig" "namespace probeStore3 = ''default''"
  "containerPort probeStore3 = http9090" "tunnels probeStore3 = []"
  "podList probeStore3 = [web1, web2, job1]"
  by (simp_all add: probeStore3_def podsStore_fields)

lemma example_names:
  "ObjectMeta.Name web1 = ''web-1''" "ObjectMeta.Name web2 = ''web-2''"
  "ObjectMeta.Name db1 = ''db-1''" "ObjectMeta.Name job1 = ''job-1''"
  "ObjectMeta.Name job2 = ''job-2''"
  by (simp_all add: web1_def web2_def db1_def job1_def job2_def runningPod_def)

lemma refusing_collaborators:
  "RESTClientFor (refusing name) c = None"
  "tunnelUp (refusing name) ns 9090 pod"
  "tunnelUp (refusing name) ns (ContainerPort http9090) pod"
  "http_Get (refusing name) target =
     (if target = name then Inl (ErrorString ''connection refused'') else Inr 200)"
  by (simp_all add: refusing_def exampleCluster_def tunnelUp_def parsePorts_examples http9090_def)

lemma refusing_responds:
  "ObjectMeta.Name pod \<noteq> name \<Longrightarrow> responds (refusing name) ns 9090 pod"
  "ObjectMeta.Name pod \<noteq> name \<Longrightarrow>
   responds (refusing name) ns (ContainerPort http9090) pod"
  by (simp_all add: responds_def refusing_collaborators)

lemma refusing_reports:
  "checkingLine web1 = ''Checking accessibility of port for pod 'web-1'.\<newline>''"
  "checkingLine web2 = ''Checking accessibility of port for pod 'web-2'.\<newline>''"
  "probeReport (refusing ''web-2'') web1 =
     [''Checking accessibility of port for pod 'web-1'.\<newline>'',
      checkMark @ '' Pod port accessible.\<newline>'']"
  by (simp_all add: probeReport_def checkingLine_def verdictLines_def refusing_collaborators
        example_names)

text \<open>
  Claim C3, at the failing input. Two pods are probed; the request to \<open>web-1\<close> is answered
  and its tunnel is stopped, the request to \<open>web-2\<close> fails with a transport error:
  \<open>validateContainerPort\<close> returns that error at once, and the tunnel to \<open>web-2\<close> has been
  started but is never stopped.
\<close>

theorem C3_tunnel_not_stopped_on_request_error:
  "http_Get (refusing ''web-2'') ''web-1'' = Inr 200 \<and>
   http_Get (refusing ''web-2'') ''web-2'' = Inl (ErrorString ''connection refused'') \<and>
   validateContainerPort (refusing ''web-2'') (FSM_Change (kubetrbl (refusing ''web-2'') 1))
       probeStore =
     Returns
       (probeStore
          \<lparr>config := Some (matchVersion exampleConfig),
           stdout :=
             [checkMark @ '' Identified pod port: 9090\<newline>'',
              ''Checking accessibility of port for pod 'web-1'.\<newline>'',
              checkMark @ '' Pod port accessible.\<newline>'',
              ''Checking accessibility of port for pod 'web-2'.\<newline>''],
           tunnels := [Forward ''web-1'', Stop ''web-1'', Forward ''web-2'']\<rparr>)
       (Some (ErrorString ''connection refused''))"
proof -
  have "validateContainerPort (refusing ''web-2'') (FSM_Change (kubetrbl (refusing ''web-2'') 1))
          probeStore =
      Returns
        (probeStore
           \<lparr>config := Some (matchVersion exampleConfig),
            stdout := stdout probeStore @
                      concat (map (probeReport (refusing ''web-2'')) [web1]) @ [checkingLine web2],
            tunnels := tunnels probeStore @ concat (map probeTunnel [web1]) @
                       [Forward (ObjectMeta.Name web2)]\<rparr>)
        (Some (ErrorString ''connection refused''))"
    by (rule validateContainerPort_request_error [where rest = "[]"])
       (simp_all add: probeStore_fields refusing_collaborators refusing_responds example_names)
  then show ?thesis
    by (simp add: probeStore_fields refusing_collaborators refusing_reports example_tunnels
          example_names)
qed

text \<open>
  Claim C4, as the code has it. With the configuration present and the REST client built:
  when every candidate pod's probe gets a response, of whatever status, each pod is
  announced and reported in order (accessible below 400, inaccessible from 400 on), each
  tunnel is started and stopped, and only then the machine is changed to \<open>finish\<close>; when
  the request to a pod fails, the pods before it have been reported, the loop stops at that
  pod, the error is returned as the error of the step, and no change to \<open>finish\<close> is made.
\<close>

theorem C4_status_is_reported_and_request_error_ends_the_loop:
  assumes "config k = Some cf" and "RESTClientFor w (matchVersion cf) = None"
  shows "((\<forall>p\<in>set (podList k). responds w (namespace k) (ContainerPort (containerPort k)) p) \<longrightarrow>
            validateContainerPort w fsmChange k =
              returnNil (fsmChange ''finish''
                (k\<lparr>config := Some (matchVersion cf),
                   stdout := stdout k @ concat (map (probeReport w) (podList k)),
                   tunnels := tunnels k @ concat (map probeTunnel (podList k))\<rparr>))) \<and>
         (podList k = pre @ pod # rest \<and>
          (\<forall>p\<in>set pre. responds w (namespace k) (ContainerPort (containerPort k)) p) \<and>
          tunnelUp w (namespace k) (ContainerPort (containerPort k)) pod \<and>
          http_Get w (ObjectMeta.Name pod) = Inl e \<longrightarrow>
            validateContainerPort w fsmChange k =
              Returns
                (k\<lparr>config := Some (matchVersion cf),
                   stdout := stdout k @ concat (map (probeReport w) pre) @ [checkingLine pod],
                   tunnels := tunnels k @ concat (map probeTunnel pre) @
                              [Forward (ObjectMeta.Name pod)]\<rparr>)
                (Some e))"
proof (intro conjI impI)
  assume "\<forall>p\<in>set (podList k). responds w (namespace k) (ContainerPort (containerPort k)) p"
  then show "validateContainerPort w fsmChange k =
      returnNil (fsmChange ''finish''
        (k\<lparr>config := Some (matchVersion cf),
           stdout := stdout k @ concat (map (probeReport w) (podList k)),
           tunnels := tunnels k @ concat (map probeTunnel (podList k))\<rparr>))"
    by (rule validateContainerPort_all_respond [OF assms])
next
  assume "podList k = pre @ pod # rest \<and>
      (\<forall>p\<in>set pre. responds w (namespace k) (ContainerPort (containerPort k)) p) \<and>
      tunnelUp w (namespace k) (ContainerPort (containerPort k)) pod \<and>
      http_Get w (ObjectMeta.Name pod) = Inl e"
  then show "validateContainerPort w fsmChange k =
      Returns
        (k\<lparr>config := Some (matchVersion cf),
           stdout := stdout k @ concat (map (probeReport w) pre) @ [checkingLine pod],
           tunnels := tunnels k @ concat (map probeTunnel pre) @
                      [Forward (ObjectMeta.Name pod)]\<rparr>)
        (Some e)"
    using validateContainerPort_request_error [OF assms, of pre pod rest e fsmChange]
    by blast
qed

theorem C4_witness:
  "config probeStore = Some exampleConfig \<and>
   RESTClientFor exampleCluster (matchVersion exampleConfig) = None \<and>
   validateContainerPort exampleCluster (FSM_Change (kubetrbl exampleCluster 1)) probeStore =
     returnNil (FSM_Change (kubetrbl exampleCluster 1) ''finish''
       (probeStore
          \<lparr>config := Some (matchVersion exampleConfig),
           stdout :=
             [checkMark @ '' Identified pod port: 9090\<newline>'',
              ''Checking accessibility of port for pod 'web-1'.\<newline>'',
              checkMark @ '' Pod port accessible.\<newline>'',
              ''Checking accessibility of port for pod 'web-2'.\<newline>'',
              crossMark @ '' Pod port inaccessible.\<newline>''],
           tunnels := [Forward ''web-1'', Stop ''web-1'', Forward ''web-2'', Stop ''web-2'']\<rparr>)) \<and>
   config probeStore3 = Some exampleConfig \<and>
   RESTClientFor (refusing ''web-2'') (matchVersion exampleConfig) = None \<and>
   podList probeStore3 = [web1] @ web2 # [job1] \<and>
   http_Get (refusing ''web-2'') (ObjectMeta.Name web2) = Inl (ErrorString ''connection refused'') \<and>
   validateContainerPort (refusing ''web-2'') (FSM_Change (kubetrbl (refusing ''web-2'') 1))
       probeStore3 =
     Returns
       (probeStore3
          \<lparr>config := Some (matchVersion exampleConfig),
           stdout :=
             [checkMark @ '' Identified pod port: 9090\<newline>'',
              ''Checking accessibility of port for pod 'web-1'.\<newline>'',
              checkMark @ '' Pod port accessible.\<newline>'',
              ''Checking accessibility of port for pod 'web-2'.\<newline>''],
           tunnels := [Forward ''web-1'', Stop ''web-1'', Forward ''web-2'']\<rparr>)
       (Some (ErrorString ''connection refused''))"
  using C4_status_is_reported_and_request_error_ends_the_loop
          [where k = probeStore and cf = exampleConfig and w = exampleCluster
             and fsmChange = "FSM_Change (kubetrbl exampleCluster 1)"]
        C4_status_is_reported_and_request_error_ends_the_loop
          [where k = probeStore3 and cf = exampleConfig and w = "refusing ''web-2''"
             and pre = "[web1]" and pod = web2 and rest = "[job1]"
             and e = "ErrorString ''connection refused''"
             and fsmChange = "FSM_Change (kubetrbl (refusing ''web-2'') 1)"]
  by (simp add: probeStore_fields probeStore3_fields example_RESTClientFor example_responds
        example_reports example_tunnels refusing_collaborators refusing_responds
        refusing_reports example_names)

text \<open>
  Claim C4 as stated fails: the request to the first candidate \<open>web-1\<close> fails, and
  \<open>validateContainerPort\<close> returns the error as the error of the step; the second candidate
  \<open>web-2\<close> is neither announced nor probed, and the current state is still
  \<open>validateContainerPort\<close>.
\<close>

theorem C4_counterexample:
  "podList probeStore = [web1, web2] \<and>
   http_Get (refusing ''web-1'') ''web-1'' = Inl (ErrorString ''connection refused'') \<and>
   http_Get (refusing ''web-1'') ''web-2'' = Inr 200 \<and>
   validateContainerPort (refusing ''web-1'') (FSM_Change (kubetrbl (refusing ''web-1'') 1))
       probeStore =
     Returns
       (probeStore
          \<lparr>State := ''validateContainerPort'',
           config := Some (matchVersion exampleConfig),
           stdout :=
             [checkMark @ '' Identified pod port: 9090\<newline>'',
              ''Checking accessibility of port for pod 'web-1'.\<newline>''],
           tunnels := [Forward ''web-1'']\<rparr>)
       (Some (ErrorString ''connection refused''))"
proof -
  have "validateContainerPort (refusing ''web-1'') (FSM_Change (kubetrbl (refusing ''web-1'') 1))
          probeStore =
      Returns
        (probeStore
           \<lparr>config := Some (matchVersion exampleConfig),
            stdout := stdout probeStore @
                      concat (map (probeReport (refusing ''web-1'')) []) @ [checkingLine web1],
            tunnels := tunnels probeStore @ concat (map probeTunnel []) @
                       [Forward (ObjectMeta.Name web1)]\<rparr>)
        (Some (ErrorString ''connection refused''))"
    by (rule validateContainerPort_request_error [where rest = "[web2]"])
       (simp_all add: probeStore_fields refusing_collaborators example_names)
  then show ?thesis
    by (simp add: probeStore_fields refusing_collaborators refusing_reports example_names)
qed

section \<open>The claim about the namespace selection\<close>

lemma printIndexed_stdout:
  "printIndexed i nms k = k\<lparr>stdout := stdout k @ indexedLines i nms\<rparr>"
  by (induction nms arbitrary: i k) (simp_all add: Println_def)

lemma getNamespace_index_out_of_range:
  assumes "k8sClient k" and "Namespaces_List w = Inr nms" and "stdin k = str # rest"
    and "Atoi (TrimSpace str) = Inr answer" and "answer < 0 \<or> int (length nms) \<le> answer"
  shows "getNamespace w c k =
           Panics
             (k\<lparr>stdout := stdout k @ [''Available namespaces:\<newline>''] @ indexedLines 0 nms @
                           [''Kubernetes namespace? ''],
                stdin := rest\<rparr>)
             (indexOutOfRange answer (length nms))"
  using assms
  by (auto simp: getNamespace_def Let_def readInt_def readString_def index_def
        printIndexed_stdout Println_def Printf_def)

lemma Change_getNamespace_index_out_of_range:
  assumes "k8sClient k" and "Namespaces_List w = Inr nms" and "stdin k = str # rest"
    and "Atoi (TrimSpace str) = Inr answer" and "answer < 0 \<or> int (length nms) \<le> answer"
  shows "FSM_Change (kubetrbl w n) ''getNamespace'' k =
           Panics
             (k\<lparr>State := ''getNamespace'',
                stdout := stdout k @ [''Available namespaces:\<newline>''] @ indexedLines 0 nms @
                           [''Kubernetes namespace? ''],
                stdin := rest\<rparr>)
             (indexOutOfRange answer (length nms))"
proof -
  obtain c u where m: "kubetrbl w n = NewKubetrbl w c u"
    using kubetrbl_is_NewKubetrbl by blast
  let ?k = "k\<lparr>State := ''getNamespace''\<rparr>"
  have "getNamespace w c ?k =
      Panics
        (?k\<lparr>stdout := stdout ?k @ [''Available namespaces:\<newline>''] @ indexedLines 0 nms @
                       [''Kubernetes namespace? ''],
            stdin := rest\<rparr>)
        (indexOutOfRange answer (length nms))"
    by (rule getNamespace_index_out_of_range) (use assms in simp_all)
  from call_panics [of "getNamespace w c" ?k, OF this]
  show ?thesis
    by (simp add: m enter_getNamespace)
qed

lemma connectedStore_fields:
  "k8sClient (connectedStore input)" "stdin (connectedStore input) = input"
  "stdout (connectedStore input) = []" "namespace (connectedStore input) = ''''"
  "State (connectedStore input) = ''getKubeConfig''"
  by (simp_all add: connectedStore_def NewKubetrblStore_def)

lemma example_namespaces:
  "Namespaces_List exampleCluster = Inr [''default'', ''kube-system'', ''prod'']"
  by (simp add: exampleCluster_def)

lemma Atoi_examples:
  "Atoi (TrimSpace ''7'') = Inr 7" "Atoi (TrimSpace ''-1'') = Inr (- 1)"
  by (simp_all add: Atoi_def TrimSpace_def isSpace_def isDigit_def decimal_def digitValue_def
        digitChars_def Let_def)

text \<open>
  Claim C7, as the code has it. When the index read for the namespace is not a position of
  the list, \<open>getNamespace\<close> does not return an error: indexing the list panics with the
  run-time error \<open>index out of range\<close>. In the program's machine, at any depth, the change
  to \<open>getNamespace\<close> therefore ends in that panic: the list has been displayed once, the
  line has been consumed, the error handler has written nothing and has not re-entered the
  state, and the namespace is what it was.
\<close>

theorem C7_index_out_of_range_panics:
  assumes "k8sClient k" and "Namespaces_List w = Inr nms" and "stdin k = str # rest"
    and "Atoi (TrimSpace str) = Inr answer" and "answer < 0 \<or> int (length nms) \<le> answer"
  shows "FSM_Change (kubetrbl w n) ''getNamespace'' k =
           Panics
             (k\<lparr>State := ''getNamespace'',
                stdout := stdout k @ [''Available namespaces:\<newline>''] @ indexedLines 0 nms @
                           [''Kubernetes namespace? ''],
                stdin := rest\<rparr>)
             (indexOutOfRange answer (length nms)) \<and>
         namespace
           (k\<lparr>State := ''getNamespace'',
              stdout := stdout k @ [''Available namespaces:\<newline>''] @ indexedLines 0 nms @
                         [''Kubernetes namespace? ''],
              stdin := rest\<rparr>) = namespace k"
  using Change_getNamespace_index_out_of_range [OF assms] by simp

theorem C7_witness:
  "k8sClient (connectedStore [''-1'', ''0'', ''0'']) \<and>
   Namespaces_List exampleCluster = Inr [''default'', ''kube-system'', ''prod''] \<and>
   stdin (connectedStore [''-1'', ''0'', ''0'']) = ''-1'' # [''0'', ''0''] \<and>
   Atoi (TrimSpace ''-1'') = Inr (- 1) \<and>
   FSM_Change (kubetrbl exampleCluster 1) ''getNamespace'' (connectedStore [''-1'', ''0'', ''0'']) =
     Panics
       ((connectedStore [''-1'', ''0'', ''0''])
          \<lparr>State := ''getNamespace'',
           stdout :=
             [''Available namespaces:\<newline>'', ''0) default\<newline>'', ''1) kube-system\<newline>'',
              ''2) prod\<newline>'', ''Kubernetes namespace? ''],
           stdin := [''0'', ''0'']\<rparr>)
       ''runtime error: index out of range [-1]''"
  using C7_index_out_of_range_panics
          [where k = "connectedStore [''-1'', ''0'', ''0'']" and w = exampleCluster
             and nms = "[''default'', ''kube-system'', ''prod'']" and str = "''-1''"
             and rest = "[''0'', ''0'']" and answer = "- 1" and n = 1]
  by (simp add: connectedStore_fields example_namespaces Atoi_examples
        indexOutOfRange_def Itoa_def digits.simps digitChars_def)

text \<open>
  Claim C7 as stated fails: with three namespaces and the line \<open>7\<close> typed, the change to
  \<open>getNamespace\<close> ends in a panic, not in an error handed to the error handler: the
  list has been written once, the error handler's lines are not in the output, and the
  state has not been entered again.
\<close>

theorem C7_counterexample:
  "Namespaces_List exampleCluster = Inr [''default'', ''kube-system'', ''prod''] \<and>
   stdin (connectedStore [''7'', ''0'', ''0'']) = [''7'', ''0'', ''0''] \<and>
   FSM_Change (kubetrbl exampleCluster 1) ''getNamespace'' (connectedStore [''7'', ''0'', ''0'']) =
     Panics
       ((connectedStore [''7'', ''0'', ''0''])
          \<lparr>State := ''getNamespace'',
           stdout :=
             [''Available namespaces:\<newline>'', ''0) default\<newline>'', ''1) kube-system\<newline>'',
              ''2) prod\<newline>'', ''Kubernetes namespace? ''],
           stdin := [''0'', ''0'']\<rparr>)
       ''runtime error: index out of range [7] with length 3''"
  using Change_getNamespace_index_out_of_range
          [where k = "connectedStore [''7'', ''0'', ''0'']" and w = exampleCluster
             and nms = "[''default'', ''kube-system'', ''prod'']" and str = "''7''"
             and rest = "[''0'', ''0'']" and answer = 7 and n = 1]
  by (simp add: connectedStore_fields example_namespaces Atoi_examples
        indexOutOfRange_def Itoa_def digits.simps digitChars_def)

end
